theory Spec2Isabelle
  imports Complex_Main
begin

section \<open>Python values\<close>

text \<open>
  The converter is Python. Its values are modelled as follows.

  \<^item> A float is \<open>Fin r\<close> for the real number it denotes, or one of the three non-finite floats.
    Rounding and overflow of float arithmetic are outside the model: \<open>Fin r\<close> stands for the
    float nearest to \<open>r\<close>.
  \<^item> \<open>pyobj\<close> is the type of the values that \<open>json.load\<close> produces (None, bool, int, float,
    str, list, dict with string keys; a dict is an association list in insertion order).
  \<^item> A text that the program builds with \<open>str(...)\<close> or an f-string is a list of pieces, each
    a literal string or \<open>StrOf v\<close>, the characters of \<open>str(v)\<close>. The text denotes the
    concatenation of its pieces; \<open>str\<close> itself (decimal digits of an int, the shortest
    representation of a float) is not unfolded.
\<close>

datatype pyfloat = Fin real | PInf | NInf | NaN

datatype pyobj =
    PNone
  | PBool bool
  | PInt int
  | PFloat pyfloat
  | PStr string
  | PList "pyobj list"
  | PDict "(string \<times> pyobj) list"

datatype piece = Lit string | StrOf pyobj

type_synonym ptext = "piece list"

datatype error =
    KeyError
  | IndexError
  | TypeError
  | ValueError
  | AttributeError
  | OverflowError
  | ZeroDivisionError
  | NameError
  | FileNotFoundError
  | PermissionError
  | JSONDecodeError

text \<open>
  \<open>float(n)\<close> for a Python int \<open>n\<close>: OverflowError when \<open>n\<close> rounds to a magnitude
  beyond the largest float, that is from \<open>2^1024 - 2^970\<close> on.
\<close>

definition float_int_bound :: int where
  "float_int_bound = 2 ^ 1024 - 2 ^ 970"

definition float_of_int :: "int \<Rightarrow> error + pyfloat" where
  "float_of_int n = (if \<bar>n\<bar> < float_int_bound then Inr (Fin (of_int n)) else Inl OverflowError)"

text \<open>
  \<open>int(x)\<close> for a float truncates towards zero; it raises OverflowError on an infinity and
  ValueError on nan.
\<close>

definition trunc_real :: "real \<Rightarrow> int" where
  "trunc_real r = (if 0 \<le> r then \<lfloor>r\<rfloor> else \<lceil>r\<rceil>)"

fun py_int_of_float :: "pyfloat \<Rightarrow> error + int" where
  "py_int_of_float (Fin r) = Inr (trunc_real r)"
| "py_int_of_float PInf = Inl OverflowError"
| "py_int_of_float NInf = Inl OverflowError"
| "py_int_of_float NaN = Inl ValueError"

text \<open>\<open>x / d\<close> for a float \<open>x\<close> and a positive finite float constant \<open>d\<close>.\<close>

fun py_fdiv :: "pyfloat \<Rightarrow> real \<Rightarrow> pyfloat" where
  "py_fdiv (Fin r) d = Fin (r / d)"
| "py_fdiv PInf d = PInf"
| "py_fdiv NInf d = NInf"
| "py_fdiv NaN d = NaN"

subsection \<open>Strings\<close>



definition c_isspace :: "char \<Rightarrow> bool" where
  "c_isspace c = (c \<in> set [CHR 0x09, CHR 0x0A, CHR 0x0B, CHR 0x0C, CHR 0x0D, CHR 0x20])"

definition c_strip :: "string \<Rightarrow> string" where
  "c_strip s = rev (dropWhile c_isspace (rev (dropWhile c_isspace s)))"

definition is_digit :: "char \<Rightarrow> bool" where
  "is_digit c = (c \<in> set ''0123456789'')"

definition digit_val :: "char \<Rightarrow> nat" where
  "digit_val c = of_char c - 48"

definition digit_char :: "nat \<Rightarrow> char" where
  "digit_char d = char_of (48 + d)"

text \<open>\<open>str(n)\<close> for a non-negative int and for any int: the decimal digits.\<close>

function str_nat :: "nat \<Rightarrow> string" where
  "str_nat n = (if n < 10 then [digit_char n] else str_nat (n div 10) @ [digit_char (n mod 10)])"
  by pat_completeness auto
termination
  by (relation "measure id") auto

declare str_nat.simps [simp del]

definition str_int :: "int \<Rightarrow> string" where
  "str_int n = (if n < 0 then ''-'' @ str_nat (nat (- n)) else str_nat (nat n))"

text \<open>
  The decimal digits that \<open>int(s)\<close> accepts after the sign: digits, with single underscores
  between digits. The flag says whether the previous character was a digit.
\<close>

fun dec_digits :: "bool \<Rightarrow> nat \<Rightarrow> string \<Rightarrow> nat option" where
  "dec_digits pd acc [] = (if pd then Some acc else None)"
| "dec_digits pd acc (c # cs) =
     (if is_digit c then dec_digits True (10 * acc + digit_val c) cs
      else if c = CHR ''_'' \<and> pd \<and> cs \<noteq> [] then dec_digits False acc cs
      else None)"

text \<open>
  \<open>int(s)\<close> for a string, base 10; \<open>None\<close> is ValueError. (The limit on the number
  of digits, \<open>sys.int_max_str_digits\<close>, is a setting of the interpreter and is not
  modelled.)
\<close>

definition py_int_of_str :: "string \<Rightarrow> int option" where
  "py_int_of_str s =
     (case c_strip s of
        [] \<Rightarrow> None
      | c # r \<Rightarrow>
          if c = CHR ''-'' then map_option (\<lambda>n. - int n) (dec_digits False 0 r)
          else if c = CHR ''+'' then map_option int (dec_digits False 0 r)
          else map_option int (dec_digits False 0 (c # r)))"

text \<open>
  The characters of a text, where every piece is a literal or \<open>str\<close> of None, a bool, an int
  or a string; \<open>None\<close> when a piece is \<open>str\<close> of a float, a list or a dict.
\<close>

fun piece_chars :: "piece \<Rightarrow> string option" where
  "piece_chars (Lit s) = Some s"
| "piece_chars (StrOf PNone) = Some ''None''"
| "piece_chars (StrOf (PBool b)) = Some (if b then ''True'' else ''False'')"
| "piece_chars (StrOf (PInt n)) = Some (str_int n)"
| "piece_chars (StrOf (PStr s)) = Some s"
| "piece_chars (StrOf (PFloat f)) = None"
| "piece_chars (StrOf (PList l)) = None"
| "piece_chars (StrOf (PDict d)) = None"

fun text_chars :: "ptext \<Rightarrow> string option" where
  "text_chars [] = Some []"
| "text_chars (p # ps) =
     (case piece_chars p of
        None \<Rightarrow> None
      | Some s \<Rightarrow> (case text_chars ps of None \<Rightarrow> None | Some r \<Rightarrow> Some (s @ r)))"

text \<open>
  \<open>int(t)\<close> for a text. \<open>str\<close> of a float, a list or a dict contains a character that no
  int literal has, so a text with such a piece raises ValueError as well.
\<close>

definition py_int_of_text :: "ptext \<Rightarrow> error + int" where
  "py_int_of_text t =
     (case text_chars t of
        None \<Rightarrow> Inl ValueError
      | Some s \<Rightarrow> (case py_int_of_str s of None \<Rightarrow> Inl ValueError | Some n \<Rightarrow> Inr n))"

subsection \<open>Results that may raise\<close>

definition sbind :: "error + 'a \<Rightarrow> ('a \<Rightarrow> error + 'b) \<Rightarrow> error + 'b" where
  "sbind r f = (case r of Inl e \<Rightarrow> Inl e | Inr x \<Rightarrow> f x)"

subsection \<open>\<open>float(x)\<close>\<close>

text \<open>
  For a string Python accepts, after skipping whitespace, an optional sign followed by
  \<open>inf\<close>, \<open>infinity\<close> or \<open>nan\<close> in any letter case, or by a decimal number: digits with an
  optional point (digits on at least one side of it) and an optional exponent \<open>e\<close> or \<open>E\<close>
  with an optional sign and digits; single underscores may separate digits. The result is
  the real number denoted (the sign of a zero is not kept). \<open>None\<close> stands for ValueError.
\<close>

definition lower_char :: "char \<Rightarrow> char" where
  "lower_char c =
     (if c \<in> set ''ABCDEFGHIJKLMNOPQRSTUVWXYZ'' then char_of (of_char c + (32::nat)) else c)"

definition pow10 :: "int \<Rightarrow> real" where
  "pow10 e = (if 0 \<le> e then 10 ^ nat e else 1 / 10 ^ nat (- e))"

text \<open>An optional sign: whether it is a minus, and the rest of the string.\<close>

fun split_sign :: "string \<Rightarrow> bool \<times> string" where
  "split_sign [] = (False, [])"
| "split_sign (c # cs) =
     (if c = CHR ''-'' then (True, cs) else if c = CHR ''+'' then (False, cs) else (False, c # cs))"

text \<open>A possibly empty run of digits with underscores: its value and its number of digits.\<close>

definition digit_part :: "string \<Rightarrow> (nat \<times> nat) option" where
  "digit_part s =
     (if s = [] then Some (0, 0)
      else map_option (\<lambda>v. (v, length (filter is_digit s))) (dec_digits False 0 s))"

text \<open>
  The mantissa: the integer part before the first point and the fraction after it, with
  at least one digit in all.
\<close>

definition mantissa :: "string \<Rightarrow> real option" where
  "mantissa s =
     (case dropWhile (\<lambda>c. c \<noteq> CHR ''.'') s of
        [] \<Rightarrow> (if s = [] then None else map_option (\<lambda>vn. real (fst vn)) (digit_part s))
      | dot # fp \<Rightarrow>
          (if takeWhile (\<lambda>c. c \<noteq> CHR ''.'') s = [] \<and> fp = [] then None
           else case digit_part (takeWhile (\<lambda>c. c \<noteq> CHR ''.'') s) of
                  None \<Rightarrow> None
                | Some vn \<Rightarrow>
                    (case digit_part fp of
                       None \<Rightarrow> None
                     | Some wm \<Rightarrow> Some (real (fst vn) + real (fst wm) / 10 ^ snd wm))))"

text \<open>The exponent after \<open>e\<close>: an optional sign and at least one digit.\<close>

definition exponent :: "string \<Rightarrow> int option" where
  "exponent s =
     map_option (\<lambda>v. if fst (split_sign s) then - int v else int v)
       (dec_digits False 0 (snd (split_sign s)))"

definition is_exp_char :: "char \<Rightarrow> bool" where
  "is_exp_char c = (c = CHR ''e'' \<or> c = CHR ''E'')"

definition abs_float :: "string \<Rightarrow> pyfloat option" where
  "abs_float s =
     (if map lower_char s = ''inf'' \<or> map lower_char s = ''infinity'' then Some PInf
      else if map lower_char s = ''nan'' then Some NaN
      else case dropWhile (\<lambda>c. \<not> is_exp_char c) s of
             [] \<Rightarrow> map_option Fin (mantissa s)
           | e # ex \<Rightarrow>
               (case mantissa (takeWhile (\<lambda>c. \<not> is_exp_char c) s) of
                  None \<Rightarrow> None
                | Some r \<Rightarrow> (case exponent ex of
                               None \<Rightarrow> None
                             | Some k \<Rightarrow> Some (Fin (r * pow10 k)))))"

fun negate :: "pyfloat \<Rightarrow> pyfloat" where
  "negate (Fin r) = Fin (- r)"
| "negate PInf = NInf"
| "negate NInf = PInf"
| "negate NaN = NaN"

definition py_float_of_str :: "string \<Rightarrow> pyfloat option" where
  "py_float_of_str s =
     map_option (\<lambda>f. if fst (split_sign (c_strip s)) then negate f else f)
       (abs_float (snd (split_sign (c_strip s))))"

text \<open>\<open>float(x)\<close> for any value.\<close>

fun py_float :: "pyobj \<Rightarrow> error + pyfloat" where
  "py_float (PInt n) = float_of_int n"
| "py_float (PFloat f) = Inr f"
| "py_float (PBool b) = Inr (Fin (if b then 1 else 0))"
| "py_float (PStr s) = (case py_float_of_str s of Some f \<Rightarrow> Inr f | None \<Rightarrow> Inl ValueError)"
| "py_float PNone = Inl TypeError"
| "py_float (PList l) = Inl TypeError"
| "py_float (PDict kvs) = Inl TypeError"

section \<open>Stat resolver (custom\_converter.py, \<open>get_stat_value\<close>)\<close>

text \<open>
  A StatTable of custom\_converter.py maps a key to the float that \<open>parse_stats\<close> stored.
\<close>

type_synonym stat_table = "string \<rightharpoonup> pyfloat"

text \<open>The dictionary \<open>stats_map\<close> of alternative stat names, in source order.\<close>

definition stats_map :: "(string \<times> string list) list" where
  "stats_map =
    [(''total_cycles'', [''system.cpu.numCycles'', ''system.cpu_clk_domain.num_cycles'']),
     (''committedInsts'', [''system.cpu.committedInsts'', ''sim_insts'']),
     (''int_insts'', [''system.cpu.committed_int_insts'']),
     (''fp_insts'', [''system.cpu.committed_fp_insts'']),
     (''branches'', [''system.cpu.branches'']),
     (''branchMispredicts'', [''system.cpu.branchMispredictions'']),
     (''icache.ReadReq::total'', [''system.l1icaches.ReadReq::total'']),
     (''icache.ReadReq::miss'', [''system.l1icaches.ReadReq::miss'']),
     (''dcache.ReadReq::total'', [''system.l1dcaches.ReadReq::total'']),
     (''dcache.ReadReq::miss'', [''system.l1dcaches.ReadReq::miss'']),
     (''dcache.WriteReq::total'', [''system.l1dcaches.WriteReq::total'']),
     (''dcache.WriteReq::miss'', [''system.l1dcaches.WriteReq::miss'']),
     (''l2cache.ReadReq::total'', [''system.l2cache.ReadReq::total'']),
     (''l2cache.ReadReq::miss'', [''system.l2cache.ReadReq::miss'']),
     (''l2cache.WriteReq::total'', [''system.l2cache.WriteReq::total'']),
     (''l2cache.WriteReq::miss'', [''system.l2cache.WriteReq::miss''])]"

text \<open>\<open>stats_map.get(key, [])\<close>\<close>

definition stats_map_get :: "string \<Rightarrow> string list" where
  "stats_map_get key = (case map_of stats_map key of Some names \<Rightarrow> names | None \<Rightarrow> [])"

text \<open>
  The loop \<open>for name_candidate in ...: if name_candidate in stats: return stats[name_candidate]\<close>;
  \<open>None\<close> when the loop ends without returning.
\<close>

fun alias_lookup :: "stat_table \<Rightarrow> string list \<Rightarrow> pyfloat option" where
  "alias_lookup stats [] = None"
| "alias_lookup stats (name_candidate # rest) =
     (if name_candidate \<in> dom stats then stats name_candidate else alias_lookup stats rest)"

text \<open>
  The printed line
  \<^verbatim>\<open>Warning: Stat '{key}' not found. Returning default value '{default}'.\<close>
\<close>

definition stat_warning :: "string \<Rightarrow> pyobj \<Rightarrow> ptext" where
  "stat_warning key dflt =
     [Lit (''Warning: Stat '' @ [CHR 0x27]), Lit key,
      Lit ([CHR 0x27] @ '' not found. Returning default value '' @ [CHR 0x27]),
      StrOf dflt, Lit ([CHR 0x27] @ ''.'')]"

text \<open>
  \<open>get_stat_value(stats, key, default)\<close> returns a float or raises, and prints at most one
  line; the model returns the outcome together with the lines printed. The warning is
  printed before \<open>float(default)\<close> is evaluated, so it is printed also when that raises.
\<close>

definition get_stat_value ::
  "stat_table \<Rightarrow> string \<Rightarrow> pyobj \<Rightarrow> (error + pyfloat) \<times> ptext list" where
  "get_stat_value stats key dflt =
     (if key \<in> dom stats then (Inr (the (stats key)), [])
      else case alias_lookup stats (stats_map_get key) of
             Some v \<Rightarrow> (Inr v, [])
           | None \<Rightarrow> (py_float dflt, [stat_warning key dflt]))"

section \<open>Stat resolver of backup.py (\<open>get_stat_value\<close>)\<close>

text \<open>
  The table that \<open>parse_stats\<close> of backup.py builds maps a key to the second token of a
  line, a string. The resolver is
  \<^verbatim>\<open>try: return float(stats.get(key, default))\<close>
  \<^verbatim>\<open>except (ValueError, TypeError): return default\<close>
  It has no table of alternative names and prints nothing; the model returns its outcome
  with the (empty) list of lines printed.
\<close>

type_synonym raw_table = "string \<rightharpoonup> string"

definition backup_get_stat_value ::
  "raw_table \<Rightarrow> string \<Rightarrow> pyobj \<Rightarrow> (error + pyobj) \<times> ptext list" where
  "backup_get_stat_value stats key dflt =
     (case (case stats key of Some s \<Rightarrow> py_float (PStr s) | None \<Rightarrow> py_float dflt) of
        Inr f \<Rightarrow> (Inr (PFloat f), [])
      | Inl e \<Rightarrow> if e = ValueError \<or> e = TypeError then (Inr dflt, []) else (Inl e, []))"

section \<open>Access to the configuration (a value read by \<open>json.load\<close>)\<close>

text \<open>
  \<open>x.get(k, d)\<close>: only a dict has the method \<open>get\<close>; on any other JSON value the call
  raises AttributeError.
\<close>

fun py_get :: "pyobj \<Rightarrow> string \<Rightarrow> pyobj \<Rightarrow> error + pyobj" where
  "py_get (PDict kvs) k d = Inr (case map_of kvs k of Some v \<Rightarrow> v | None \<Rightarrow> d)"
| "py_get PNone k d = Inl AttributeError"
| "py_get (PBool b) k d = Inl AttributeError"
| "py_get (PInt n) k d = Inl AttributeError"
| "py_get (PFloat f) k d = Inl AttributeError"
| "py_get (PStr s) k d = Inl AttributeError"
| "py_get (PList l) k d = Inl AttributeError"

text \<open>
  \<open>x[k]\<close> for a string \<open>k\<close>: KeyError on a dict without the key, TypeError on every other
  JSON value (a list or a string takes integer indices, the rest is not subscriptable).
\<close>

fun py_item :: "pyobj \<Rightarrow> string \<Rightarrow> error + pyobj" where
  "py_item (PDict kvs) k = (case map_of kvs k of Some v \<Rightarrow> Inr v | None \<Rightarrow> Inl KeyError)"
| "py_item PNone k = Inl TypeError"
| "py_item (PBool b) k = Inl TypeError"
| "py_item (PInt n) k = Inl TypeError"
| "py_item (PFloat f) k = Inl TypeError"
| "py_item (PStr s) k = Inl TypeError"
| "py_item (PList l) k = Inl TypeError"

text \<open>
  \<open>x[i]\<close> for a non-negative int \<open>i\<close>: IndexError past the end of a list or string, KeyError
  on a dict (its keys are strings), TypeError otherwise.
\<close>

fun py_index :: "pyobj \<Rightarrow> nat \<Rightarrow> error + pyobj" where
  "py_index (PList l) i = (if i < length l then Inr (l ! i) else Inl IndexError)"
| "py_index (PStr s) i = (if i < length s then Inr (PStr [s ! i]) else Inl IndexError)"
| "py_index (PDict kvs) i = Inl KeyError"
| "py_index PNone i = Inl TypeError"
| "py_index (PBool b) i = Inl TypeError"
| "py_index (PInt n) i = Inl TypeError"
| "py_index (PFloat f) i = Inl TypeError"

text \<open>\<open>int(x)\<close> for a JSON value.\<close>

fun py_int :: "pyobj \<Rightarrow> error + int" where
  "py_int (PInt n) = Inr n"
| "py_int (PBool b) = Inr (if b then 1 else 0)"
| "py_int (PFloat f) = py_int_of_float f"
| "py_int (PStr s) = (case py_int_of_str s of Some n \<Rightarrow> Inr n | None \<Rightarrow> Inl ValueError)"
| "py_int PNone = Inl TypeError"
| "py_int (PList l) = Inl TypeError"
| "py_int (PDict kvs) = Inl TypeError"

subsection \<open>\<open>parse_config\<close> (custom\_converter.py)\<close>

text \<open>
  \<open>parse_config\<close> after \<open>json.load\<close> has returned \<open>config_data\<close>: the first element of a
  list, ValueError (\<open>config.json is an empty list.\<close>) for the empty list, and any other value
  as it is.
\<close>

fun parse_config :: "pyobj \<Rightarrow> error + pyobj" where
  "parse_config (PList []) = Inl ValueError"
| "parse_config (PList (x # xs)) = Inr x"
| "parse_config PNone = Inr PNone"
| "parse_config (PBool b) = Inr (PBool b)"
| "parse_config (PInt n) = Inr (PInt n)"
| "parse_config (PFloat f) = Inr (PFloat f)"
| "parse_config (PStr s) = Inr (PStr s)"
| "parse_config (PDict kvs) = Inr (PDict kvs)"

text \<open>
  The first statement of \<open>create_mcpat_xml\<close>:
  \<^verbatim>\<open>if isinstance(config, list) and len(config) > 0: config = config[0]\<close>
  \<^verbatim>\<open>elif not isinstance(config, dict): raise TypeError(...)\<close>
\<close>

fun config_guard :: "pyobj \<Rightarrow> error + pyobj" where
  "config_guard (PList (x # xs)) = Inr x"
| "config_guard (PList []) = Inl TypeError"
| "config_guard (PDict kvs) = Inr (PDict kvs)"
| "config_guard PNone = Inl TypeError"
| "config_guard (PBool b) = Inl TypeError"
| "config_guard (PInt n) = Inl TypeError"
| "config_guard (PFloat f) = Inl TypeError"
| "config_guard (PStr s) = Inl TypeError"

text \<open>
  \<^verbatim>\<open>cache_line_size = config.get('board', {}).get('cache_line_size', 64)\<close>
\<close>

definition cache_line_size_of :: "pyobj \<Rightarrow> error + pyobj" where
  "cache_line_size_of config =
     sbind (py_get config ''board'' (PDict [])) (\<lambda>board.
     py_get board ''cache_line_size'' (PInt 64))"

text \<open>
  \<^verbatim>\<open>cores_list = config.get('board', {}).get('processor', {}).get('cores', [])\<close>
  \<^verbatim>\<open>num_cores = len(cores_list) if isinstance(cores_list, list) else 1\<close>
\<close>

definition cores_list_of :: "pyobj \<Rightarrow> error + pyobj" where
  "cores_list_of config =
     sbind (py_get config ''board'' (PDict [])) (\<lambda>board.
     sbind (py_get board ''processor'' (PDict [])) (\<lambda>processor.
     py_get processor ''cores'' (PList [])))"

fun len_or_one :: "pyobj \<Rightarrow> nat" where
  "len_or_one (PList l) = length l"
| "len_or_one PNone = 1"
| "len_or_one (PBool b) = 1"
| "len_or_one (PInt n) = 1"
| "len_or_one (PFloat f) = 1"
| "len_or_one (PStr s) = 1"
| "len_or_one (PDict kvs) = 1"

definition num_cores_of :: "pyobj \<Rightarrow> error + nat" where
  "num_cores_of config = sbind (cores_list_of config) (\<lambda>cores_list. Inr (len_or_one cores_list))"

section \<open>The XML tree (\<open>xml.etree.ElementTree\<close>)\<close>

text \<open>
  An element has a tag, a dictionary of attributes and a list of children. The program holds
  references to elements of one tree and assigns to their attributes; the tree's structure
  never changes. A reference is the path from the root (child indices), and \<open>None\<close> is
  Python's \<open>None\<close>.
\<close>

datatype xml = Elem (tag: string) (attrib: "(string \<times> ptext) list") (children: "xml list")

type_synonym path = "nat list"

text \<open>
  \<open>node.find(".//T[@k='x']")\<close> returns the first element, in document order, among the
  descendants of \<open>node\<close> (the node itself excluded) with tag \<open>T\<close> whose attribute \<open>k\<close> is
  \<open>x\<close>; \<open>None\<close> when there is none.
\<close>

definition matches :: "string \<Rightarrow> string \<Rightarrow> string \<Rightarrow> xml \<Rightarrow> bool" where
  "matches t k x e = (tag e = t \<and> map_of (attrib e) k = Some [Lit x])"

fun find_in :: "(xml \<Rightarrow> bool) \<Rightarrow> xml \<Rightarrow> path option"
and find_list :: "(xml \<Rightarrow> bool) \<Rightarrow> nat \<Rightarrow> xml list \<Rightarrow> path option" where
  "find_in P (Elem t a cs) = (if P (Elem t a cs) then Some [] else find_list P 0 cs)"
| "find_list P i [] = None"
| "find_list P i (c # cs) =
     (case find_in P c of Some p \<Rightarrow> Some (i # p) | None \<Rightarrow> find_list P (Suc i) cs)"

text \<open>The search below the node at path \<open>q\<close>; the result is a path from the root.\<close>

fun find_desc :: "(xml \<Rightarrow> bool) \<Rightarrow> xml \<Rightarrow> path \<Rightarrow> path option" where
  "find_desc P (Elem t a cs) [] = find_list P 0 cs"
| "find_desc P (Elem t a cs) (i # q) =
     (if i < length cs then map_option ((#) i) (find_desc P (cs ! i) q) else None)"

text \<open>The truth value of an element is whether it has children.\<close>

fun has_children :: "xml \<Rightarrow> path \<Rightarrow> bool" where
  "has_children (Elem t a cs) [] = (cs \<noteq> [])"
| "has_children (Elem t a cs) (i # q) = (i < length cs \<and> has_children (cs ! i) q)"

text \<open>\<open>d[k] = v\<close> on an attribute dictionary: replace in place, or append a new key.\<close>

fun dict_set :: "string \<Rightarrow> ptext \<Rightarrow> (string \<times> ptext) list \<Rightarrow> (string \<times> ptext) list" where
  "dict_set k v [] = [(k, v)]"
| "dict_set k v ((k', v') # kvs) = (if k' = k then (k, v) # kvs else (k', v') # dict_set k v kvs)"

text \<open>\<open>node.attrib['value'] = v\<close> and \<open>node.attrib['value']\<close> for the node at a path.\<close>

fun set_val :: "path \<Rightarrow> ptext \<Rightarrow> xml \<Rightarrow> xml" where
  "set_val [] v (Elem t a cs) = Elem t (dict_set ''value'' v a) cs"
| "set_val (i # q) v (Elem t a cs) =
     (if i < length cs then Elem t a (cs[i := set_val q v (cs ! i)]) else Elem t a cs)"

fun get_val :: "xml \<Rightarrow> path \<Rightarrow> ptext option" where
  "get_val (Elem t a cs) [] = map_of a ''value''"
| "get_val (Elem t a cs) (i # q) = (if i < length cs then get_val (cs ! i) q else None)"

fun valid_path :: "xml \<Rightarrow> path \<Rightarrow> bool" where
  "valid_path (Elem t a cs) [] = True"
| "valid_path (Elem t a cs) (i # q) = (i < length cs \<and> valid_path (cs ! i) q)"

section \<open>Programs: a tree that is mutated, lines that are printed, exceptions\<close>

text \<open>
  The state is the tree and the lines printed so far. A program returns a value or raises,
  and leaves a state in both cases.
\<close>

type_synonym st = "xml \<times> ptext list"

type_synonym 'a prog = "st \<Rightarrow> (error + 'a) \<times> st"

definition ret :: "'a \<Rightarrow> 'a prog" where
  "ret x s = (Inr x, s)"

definition raise :: "error \<Rightarrow> 'a prog" where
  "raise e s = (Inl e, s)"

definition bnd :: "'a prog \<Rightarrow> ('a \<Rightarrow> 'b prog) \<Rightarrow> 'b prog" where
  "bnd m f s = (case m s of (Inl e, s') \<Rightarrow> (Inl e, s') | (Inr x, s') \<Rightarrow> f x s')"

definition lift :: "error + 'a \<Rightarrow> 'a prog" where
  "lift r s = (r, s)"

definition print :: "ptext \<Rightarrow> unit prog" where
  "print line s = (Inr (), (fst s, snd s @ [line]))"

text \<open>\<open>try: m except (KeyError, IndexError): h\<close>\<close>

definition try_except :: "unit prog \<Rightarrow> unit prog \<Rightarrow> unit prog" where
  "try_except m h s =
     (case m s of
        (Inl e, s') \<Rightarrow> if e = KeyError \<or> e = IndexError then h s' else (Inl e, s')
      | (Inr x, s') \<Rightarrow> (Inr x, s'))"

text \<open>\<open>for i in xs: body(i)\<close>\<close>

fun for_each :: "nat list \<Rightarrow> (nat \<Rightarrow> unit prog) \<Rightarrow> unit prog" where
  "for_each [] body = ret ()"
| "for_each (i # xs) body = bnd (body i) (\<lambda>_. for_each xs body)"

text \<open>
  \<open>node.find(".//T[@name='x']")\<close>, where \<open>node\<close> may be \<open>None\<close> (then the call raises
  AttributeError).
\<close>

definition find :: "path option \<Rightarrow> string \<Rightarrow> string \<Rightarrow> path option prog" where
  "find node t x s =
     (case node of
        None \<Rightarrow> (Inl AttributeError, s)
      | Some q \<Rightarrow> (Inr (find_desc (matches t ''name'' x) (fst s) q), s))"

text \<open>\<open>if node:\<close>\<close>

definition truthy :: "path option \<Rightarrow> bool prog" where
  "truthy node s =
     (case node of None \<Rightarrow> (Inr False, s) | Some q \<Rightarrow> (Inr (has_children (fst s) q), s))"

text \<open>
  \<open>node.find(".//T[@name='x']").attrib['value'] = v\<close>; the right-hand side has been
  evaluated before.
\<close>

definition write_val :: "path option \<Rightarrow> string \<Rightarrow> string \<Rightarrow> ptext \<Rightarrow> unit prog" where
  "write_val node t x v =
     bnd (find node t x) (\<lambda>target.
       case target of
         None \<Rightarrow> raise AttributeError
       | Some p \<Rightarrow> (\<lambda>s. (Inr (), (set_val p v (fst s), snd s))))"

text \<open>\<open>node.find(".//T[@name='x']").attrib['value']\<close>\<close>

definition read_val :: "path option \<Rightarrow> string \<Rightarrow> string \<Rightarrow> ptext prog" where
  "read_val node t x =
     bnd (find node t x) (\<lambda>target.
       case target of
         None \<Rightarrow> raise AttributeError
       | Some p \<Rightarrow> (\<lambda>s. case get_val (fst s) p of
                            None \<Rightarrow> (Inl KeyError, s)
                          | Some v \<Rightarrow> (Inr v, s)))"

text \<open>\<open>str(int(x))\<close> for a float \<open>x\<close>.\<close>

definition str_int_of :: "pyfloat \<Rightarrow> ptext prog" where
  "str_int_of x = bnd (lift (py_int_of_float x)) (\<lambda>n. ret [StrOf (PInt n)])"

text \<open>
  A call of \<open>get_stat_value\<close> inside a program: its lines are printed, and its exception
  is raised. The default is an int in every call of the source.
\<close>

definition stat :: "stat_table \<Rightarrow> string \<Rightarrow> int \<Rightarrow> pyfloat prog" where
  "stat stats key dflt s =
     (fst (get_stat_value stats key (PInt dflt)),
      (fst s, snd s @ snd (get_stat_value stats key (PInt dflt))))"

text \<open>A local variable that is read: NameError when it was never assigned.\<close>

definition var :: "'a option \<Rightarrow> 'a prog" where
  "var x = (case x of None \<Rightarrow> raise NameError | Some v \<Rightarrow> ret v)"

subsection \<open>The shape of a tree\<close>

text \<open>
  What \<open>find\<close> and the truth value of an element depend on: the tree without its \<open>value\<close>
  attributes. Assignments to \<open>value\<close> attributes keep it.
\<close>

fun erase :: "xml \<Rightarrow> xml" where
  "erase (Elem t a cs) = Elem t (filter (\<lambda>kv. fst kv \<noteq> ''value'') a) (map erase cs)"

definition same_shape :: "xml \<Rightarrow> xml \<Rightarrow> bool" where
  "same_shape t u = (erase t = erase u)"

section \<open>Reading a populated tree\<close>

text \<open>
  A field of the output is named as the program names it: the chain of component names
  from the root, then the tag and the name of a parameter or statistic. Each step is a
  \<open>find\<close>, and the field is the \<open>value\<close> attribute of the element reached.
\<close>

fun component_path :: "xml \<Rightarrow> path \<Rightarrow> string list \<Rightarrow> path option" where
  "component_path x q [] = Some q"
| "component_path x q (c # cs) =
     (case find_desc (matches ''component'' ''name'' c) x q of
        None \<Rightarrow> None
      | Some p \<Rightarrow> component_path x p cs)"

definition field :: "xml \<Rightarrow> string list \<Rightarrow> string \<Rightarrow> string \<Rightarrow> ptext option" where
  "field x comps t nm =
     (case component_path x [] comps of
        None \<Rightarrow> None
      | Some q \<Rightarrow> (case find_desc (matches t ''name'' nm) x q of
                     None \<Rightarrow> None
                   | Some p \<Rightarrow> get_val x p))"

text \<open>The same for the result of a run: \<open>None\<close> when the run raised.\<close>

definition output_field ::
  "(error + xml) \<times> ptext list \<Rightarrow> string list \<Rightarrow> string \<Rightarrow> string \<Rightarrow> ptext option" where
  "output_field r comps t nm = (case fst r of Inl e \<Rightarrow> None | Inr x \<Rightarrow> field x comps t nm)"

definition completes :: "(error + xml) \<times> ptext list \<Rightarrow> bool" where
  "completes r = (case fst r of Inl e \<Rightarrow> False | Inr x \<Rightarrow> True)"

text \<open>The int that \<open>int(x)\<close> returns for a finite float.\<close>

definition int_of :: "pyfloat \<Rightarrow> int" where
  "int_of x = (case x of Fin r \<Rightarrow> trunc_real r | _ \<Rightarrow> 0)"

text \<open>All elements of a tree in document order.\<close>

fun nodes :: "xml \<Rightarrow> xml list" where
  "nodes (Elem t a cs) = Elem t a cs # concat (map nodes cs)"

section \<open>\<open>create_mcpat_xml\<close> of custom\_converter.py\<close>

text \<open>
  The template, as \<open>ET.fromstring\<close> parses the string \<open>mcpat_template\<close>: the elements with
  their attributes in source order.
\<close>

definition mcpat_template :: xml where
  "mcpat_template =
  Elem ''component'' [(''id'', [Lit ''root'']), (''name'', [Lit ''root''])] [
    Elem ''component'' [(''id'', [Lit ''system'']), (''name'', [Lit ''system''])] [
      Elem ''param'' [(''name'', [Lit ''number_of_cores'']), (''value'', [Lit ''1''])] [],
      Elem ''param'' [(''name'', [Lit ''number_of_L1Directories'']), (''value'', [Lit ''0''])] [],
      Elem ''param'' [(''name'', [Lit ''number_of_L2Directories'']), (''value'', [Lit ''0''])] [],
      Elem ''param'' [(''name'', [Lit ''number_of_L2s'']), (''value'', [Lit ''1''])] [],
      Elem ''param'' [(''name'', [Lit ''Private_L2'']), (''value'', [Lit ''0''])] [],
      Elem ''param'' [(''name'', [Lit ''number_of_L3s'']), (''value'', [Lit ''0''])] [],
      Elem ''param'' [(''name'', [Lit ''number_of_NoCs'']), (''value'', [Lit ''0''])] [],
      Elem ''param'' [(''name'', [Lit ''homogeneous_cores'']), (''value'', [Lit ''1''])] [],
      Elem ''param'' [(''name'', [Lit ''homogeneous_L2s'']), (''value'', [Lit ''1''])] [],
      Elem ''param'' [(''name'', [Lit ''homogeneous_L1Directories'']), (''value'', [Lit ''0''])] [],
      Elem ''param'' [(''name'', [Lit ''homogeneous_L2Directories'']), (''value'', [Lit ''0''])] [],
      Elem ''param'' [(''name'', [Lit ''homogeneous_L3s'']), (''value'', [Lit ''0''])] [],
      Elem ''param'' [(''name'', [Lit ''homogeneous_ccs'']), (''value'', [Lit ''0''])] [],
      Elem ''param'' [(''name'', [Lit ''core_tech_node'']), (''value'', [Lit ''40''])] [],
      Elem ''param'' [(''name'', [Lit ''target_core_clockrate'']), (''value'', [Lit ''1000.0''])] [],
      Elem ''param'' [(''name'', [Lit ''temperature'']), (''value'', [Lit ''340''])] [],
      Elem ''param'' [(''name'', [Lit ''number_cache_levels'']), (''value'', [Lit ''2''])] [],
      Elem ''param'' [(''name'', [Lit ''interconnect_projection_type'']), (''value'', [Lit ''1''])] [],
      Elem ''param'' [(''name'', [Lit ''device_type'']), (''value'', [Lit ''2''])] [],
      Elem ''param'' [(''name'', [Lit ''longer_channel_device'']), (''value'', [Lit ''1''])] [],
      Elem ''param'' [(''name'', [Lit ''Embedded'']), (''value'', [Lit ''1''])] [],
      Elem ''param'' [(''name'', [Lit ''opt_clockrate'']), (''value'', [Lit ''1''])] [],
      Elem ''param'' [(''name'', [Lit ''machine_bits'']), (''value'', [Lit ''32''])] [],
      Elem ''param'' [(''name'', [Lit ''virtual_address_width'']), (''value'', [Lit ''32''])] [],
      Elem ''param'' [(''name'', [Lit ''physical_address_width'']), (''value'', [Lit ''32''])] [],
      Elem ''param'' [(''name'', [Lit ''virtual_memory_page_size'']), (''value'', [Lit ''4096''])] [],
      Elem ''stat'' [(''name'', [Lit ''total_cycles'']), (''value'', [Lit ''100000''])] [],
      Elem ''stat'' [(''name'', [Lit ''idle_cycles'']), (''value'', [Lit ''0''])] [],
      Elem ''stat'' [(''name'', [Lit ''busy_cycles'']), (''value'', [Lit ''100000''])] [],
      Elem ''component'' [(''id'', [Lit ''system.core0'']), (''name'', [Lit ''core0''])] [
        Elem ''param'' [(''name'', [Lit ''clock_rate'']), (''value'', [Lit ''1000.0''])] [],
        Elem ''param'' [(''name'', [Lit ''opt_local'']), (''value'', [Lit ''0''])] [],
        Elem ''param'' [(''name'', [Lit ''instruction_length'']), (''value'', [Lit ''32''])] [],
        Elem ''param'' [(''name'', [Lit ''opcode_width'']), (''value'', [Lit ''7''])] [],
        Elem ''param'' [(''name'', [Lit ''x86'']), (''value'', [Lit ''0''])] [],
        Elem ''param'' [(''name'', [Lit ''micro_opcode_width'']), (''value'', [Lit ''8''])] [],
        Elem ''param'' [(''name'', [Lit ''machine_type'']), (''value'', [Lit ''0''])] [],
        Elem ''param'' [(''name'', [Lit ''number_hardware_threads'']), (''value'', [Lit ''1''])] [],
        Elem ''param'' [(''name'', [Lit ''fetch_width'']), (''value'', [Lit ''2''])] [],
        Elem ''param'' [(''name'', [Lit ''number_instruction_fetch_ports'']), (''value'', [Lit ''1''])] [],
        Elem ''param'' [(''name'', [Lit ''decode_width'']), (''value'', [Lit ''2''])] [],
        Elem ''param'' [(''name'', [Lit ''issue_width'']), (''value'', [Lit ''4''])] [],
        Elem ''param'' [(''name'', [Lit ''peak_issue_width'']), (''value'', [Lit ''7''])] [],
        Elem ''param'' [(''name'', [Lit ''commit_width'']), (''value'', [Lit ''4''])] [],
        Elem ''param'' [(''name'', [Lit ''fp_issue_width'']), (''value'', [Lit ''1''])] [],
        Elem ''param'' [(''name'', [Lit ''prediction_width'']), (''value'', [Lit ''1''])] [],
        Elem ''param'' [(''name'', [Lit ''pipelines_per_core'']), (''value'', [Lit ''1,1''])] [],
        Elem ''param'' [(''name'', [Lit ''pipeline_depth'']), (''value'', [Lit ''8,8''])] [],
        Elem ''param'' [(''name'', [Lit ''ALU_per_core'']), (''value'', [Lit ''3''])] [],
        Elem ''param'' [(''name'', [Lit ''MUL_per_core'']), (''value'', [Lit ''1''])] [],
        Elem ''param'' [(''name'', [Lit ''FPU_per_core'']), (''value'', [Lit ''1''])] [],
        Elem ''param'' [(''name'', [Lit ''instruction_buffer_size'']), (''value'', [Lit ''32''])] [],
        Elem ''param'' [(''name'', [Lit ''decoded_stream_buffer_size'']), (''value'', [Lit ''16''])] [],
        Elem ''param'' [(''name'', [Lit ''instruction_window_scheme'']), (''value'', [Lit ''0''])] [],
        Elem ''param'' [(''name'', [Lit ''instruction_window_size'']), (''value'', [Lit ''20''])] [],
        Elem ''param'' [(''name'', [Lit ''fp_instruction_window_size'']), (''value'', [Lit ''15''])] [],
        Elem ''param'' [(''name'', [Lit ''ROB_size'']), (''value'', [Lit ''0''])] [],
        Elem ''param'' [(''name'', [Lit ''archi_Regs_IRF_size'']), (''value'', [Lit ''32''])] [],
        Elem ''param'' [(''name'', [Lit ''archi_Regs_FRF_size'']), (''value'', [Lit ''32''])] [],
        Elem ''param'' [(''name'', [Lit ''phy_Regs_IRF_size'']), (''value'', [Lit ''64''])] [],
        Elem ''param'' [(''name'', [Lit ''phy_Regs_FRF_size'']), (''value'', [Lit ''64''])] [],
        Elem ''param'' [(''name'', [Lit ''rename_scheme'']), (''value'', [Lit ''0''])] [],
        Elem ''param'' [(''name'', [Lit ''checkpoint_depth'']), (''value'', [Lit ''1''])] [],
        Elem ''param'' [(''name'', [Lit ''register_windows_size'']), (''value'', [Lit ''0''])] [],
        Elem ''param'' [(''name'', [Lit ''LSU_order'']), (''value'', [Lit ''inorder''])] [],
        Elem ''param'' [(''name'', [Lit ''store_buffer_size'']), (''value'', [Lit ''4''])] [],
        Elem ''param'' [(''name'', [Lit ''load_buffer_size'']), (''value'', [Lit ''0''])] [],
        Elem ''param'' [(''name'', [Lit ''memory_ports'']), (''value'', [Lit ''1''])] [],
        Elem ''param'' [(''name'', [Lit ''RAS_size'']), (''value'', [Lit ''4''])] [],
        Elem ''stat'' [(''name'', [Lit ''total_instructions'']), (''value'', [Lit ''400000''])] [],
        Elem ''stat'' [(''name'', [Lit ''int_instructions'']), (''value'', [Lit ''200000''])] [],
        Elem ''stat'' [(''name'', [Lit ''fp_instructions'']), (''value'', [Lit ''100000''])] [],
        Elem ''stat'' [(''name'', [Lit ''branch_instructions'']), (''value'', [Lit ''100000''])] [],
        Elem ''stat'' [(''name'', [Lit ''branch_mispredictions'']), (''value'', [Lit ''0''])] [],
        Elem ''stat'' [(''name'', [Lit ''load_instructions'']), (''value'', [Lit ''0''])] [],
        Elem ''stat'' [(''name'', [Lit ''store_instructions'']), (''value'', [Lit ''50000''])] [],
        Elem ''stat'' [(''name'', [Lit ''committed_instructions'']), (''value'', [Lit ''400000''])] [],
        Elem ''stat'' [(''name'', [Lit ''committed_int_instructions'']), (''value'', [Lit ''200000''])] [],
        Elem ''stat'' [(''name'', [Lit ''committed_fp_instructions'']), (''value'', [Lit ''100000''])] [],
        Elem ''stat'' [(''name'', [Lit ''pipeline_duty_cycle'']), (''value'', [Lit ''1''])] [],
        Elem ''stat'' [(''name'', [Lit ''total_cycles'']), (''value'', [Lit ''100000''])] [],
        Elem ''stat'' [(''name'', [Lit ''idle_cycles'']), (''value'', [Lit ''0''])] [],
        Elem ''stat'' [(''name'', [Lit ''busy_cycles'']), (''value'', [Lit ''100000''])] [],
        Elem ''stat'' [(''name'', [Lit ''ROB_reads'']), (''value'', [Lit ''400000''])] [],
        Elem ''stat'' [(''name'', [Lit ''ROB_writes'']), (''value'', [Lit ''400000''])] [],
        Elem ''stat'' [(''name'', [Lit ''rename_reads'']), (''value'', [Lit ''800000''])] [],
        Elem ''stat'' [(''name'', [Lit ''rename_writes'']), (''value'', [Lit ''400000''])] [],
        Elem ''stat'' [(''name'', [Lit ''fp_rename_reads'']), (''value'', [Lit ''200000''])] [],
        Elem ''stat'' [(''name'', [Lit ''fp_rename_writes'']), (''value'', [Lit ''100000''])] [],
        Elem ''stat'' [(''name'', [Lit ''inst_window_reads'']), (''value'', [Lit ''400000''])] [],
        Elem ''stat'' [(''name'', [Lit ''inst_window_writes'']), (''value'', [Lit ''400000''])] [],
        Elem ''stat'' [(''name'', [Lit ''inst_window_wakeup_accesses'']), (''value'', [Lit ''800000''])] [],
        Elem ''stat'' [(''name'', [Lit ''fp_inst_window_reads'']), (''value'', [Lit ''200000''])] [],
        Elem ''stat'' [(''name'', [Lit ''fp_inst_window_writes'']), (''value'', [Lit ''200000''])] [],
        Elem ''stat'' [(''name'', [Lit ''fp_inst_window_wakeup_accesses'']), (''value'', [Lit ''400000''])] [],
        Elem ''stat'' [(''name'', [Lit ''int_regfile_reads'']), (''value'', [Lit ''600000''])] [],
        Elem ''stat'' [(''name'', [Lit ''float_regfile_reads'']), (''value'', [Lit ''100000''])] [],
        Elem ''stat'' [(''name'', [Lit ''int_regfile_writes'']), (''value'', [Lit ''300000''])] [],
        Elem ''stat'' [(''name'', [Lit ''float_regfile_writes'']), (''value'', [Lit ''50000''])] [],
        Elem ''stat'' [(''name'', [Lit ''function_calls'']), (''value'', [Lit ''5''])] [],
        Elem ''stat'' [(''name'', [Lit ''context_switches'']), (''value'', [Lit ''260343''])] [],
        Elem ''stat'' [(''name'', [Lit ''ialu_accesses'']), (''value'', [Lit ''300000''])] [],
        Elem ''stat'' [(''name'', [Lit ''fpu_accesses'']), (''value'', [Lit ''100000''])] [],
        Elem ''stat'' [(''name'', [Lit ''mul_accesses'']), (''value'', [Lit ''200000''])] [],
        Elem ''stat'' [(''name'', [Lit ''cdb_alu_accesses'']), (''value'', [Lit ''300000''])] [],
        Elem ''stat'' [(''name'', [Lit ''cdb_mul_accesses'']), (''value'', [Lit ''200000''])] [],
        Elem ''stat'' [(''name'', [Lit ''cdb_fpu_accesses'']), (''value'', [Lit ''100000''])] [],
        Elem ''stat'' [(''name'', [Lit ''IFU_duty_cycle'']), (''value'', [Lit ''0.9''])] [],
        Elem ''stat'' [(''name'', [Lit ''BR_duty_cycle'']), (''value'', [Lit ''0.72''])] [],
        Elem ''stat'' [(''name'', [Lit ''LSU_duty_cycle'']), (''value'', [Lit ''0.71''])] [],
        Elem ''stat'' [(''name'', [Lit ''MemManU_I_duty_cycle'']), (''value'', [Lit ''0.9''])] [],
        Elem ''stat'' [(''name'', [Lit ''MemManU_D_duty_cycle'']), (''value'', [Lit ''0.71''])] [],
        Elem ''stat'' [(''name'', [Lit ''ALU_duty_cycle'']), (''value'', [Lit ''0.76''])] [],
        Elem ''stat'' [(''name'', [Lit ''MUL_duty_cycle'']), (''value'', [Lit ''0.82''])] [],
        Elem ''stat'' [(''name'', [Lit ''FPU_duty_cycle'']), (''value'', [Lit ''0.0''])] [],
        Elem ''stat'' [(''name'', [Lit ''ALU_cdb_duty_cycle'']), (''value'', [Lit ''0.76''])] [],
        Elem ''stat'' [(''name'', [Lit ''MUL_cdb_duty_cycle'']), (''value'', [Lit ''0.82''])] [],
        Elem ''stat'' [(''name'', [Lit ''FPU_cdb_duty_cycle'']), (''value'', [Lit ''0.0''])] [],
        Elem ''param'' [(''name'', [Lit ''number_of_BPT'']), (''value'', [Lit ''2''])] [],
        Elem ''component'' [(''id'', [Lit ''system.core0.predictor'']), (''name'', [Lit ''PBT''])] [
          Elem ''param'' [(''name'', [Lit ''local_predictor_size'']), (''value'', [Lit ''10,3''])] [],
          Elem ''param'' [(''name'', [Lit ''local_predictor_entries'']), (''value'', [Lit ''4''])] [],
          Elem ''param'' [(''name'', [Lit ''global_predictor_entries'']), (''value'', [Lit ''4096''])] [],
          Elem ''param'' [(''name'', [Lit ''global_predictor_bits'']), (''value'', [Lit ''2''])] [],
          Elem ''param'' [(''name'', [Lit ''chooser_predictor_entries'']), (''value'', [Lit ''4096''])] [],
          Elem ''param'' [(''name'', [Lit ''chooser_predictor_bits'']), (''value'', [Lit ''2''])] []],
        Elem ''component'' [(''id'', [Lit ''system.core0.itlb'']), (''name'', [Lit ''itlb''])] [
          Elem ''param'' [(''name'', [Lit ''number_entries'']), (''value'', [Lit ''64''])] [],
          Elem ''stat'' [(''name'', [Lit ''total_accesses'']), (''value'', [Lit ''200000''])] [],
          Elem ''stat'' [(''name'', [Lit ''total_misses'']), (''value'', [Lit ''4''])] [],
          Elem ''stat'' [(''name'', [Lit ''conflicts'']), (''value'', [Lit ''0''])] []],
        Elem ''component'' [(''id'', [Lit ''system.core0.icache'']), (''name'', [Lit ''icache''])] [
          Elem ''param'' [(''name'', [Lit ''icache_config'']), (''value'', [Lit ''32768,64,8,1,10,10,64,0''])] [],
          Elem ''param'' [(''name'', [Lit ''buffer_sizes'']), (''value'', [Lit ''4, 4, 4,0''])] [],
          Elem ''stat'' [(''name'', [Lit ''read_accesses'']), (''value'', [Lit ''200000''])] [],
          Elem ''stat'' [(''name'', [Lit ''read_misses'']), (''value'', [Lit ''0''])] [],
          Elem ''stat'' [(''name'', [Lit ''conflicts'']), (''value'', [Lit ''0''])] []],
        Elem ''component'' [(''id'', [Lit ''system.core0.dtlb'']), (''name'', [Lit ''dtlb''])] [
          Elem ''param'' [(''name'', [Lit ''number_entries'']), (''value'', [Lit ''64''])] [],
          Elem ''stat'' [(''name'', [Lit ''total_accesses'']), (''value'', [Lit ''400000''])] [],
          Elem ''stat'' [(''name'', [Lit ''total_misses'']), (''value'', [Lit ''4''])] [],
          Elem ''stat'' [(''name'', [Lit ''conflicts'']), (''value'', [Lit ''0''])] []],
        Elem ''component'' [(''id'', [Lit ''system.core0.dcache'']), (''name'', [Lit ''dcache''])] [
          Elem ''param'' [(''name'', [Lit ''dcache_config'']), (''value'', [Lit ''32768,64,8,1,10,10,64,1''])] [],
          Elem ''param'' [(''name'', [Lit ''buffer_sizes'']), (''value'', [Lit ''4, 4, 4, 4''])] [],
          Elem ''stat'' [(''name'', [Lit ''read_accesses'']), (''value'', [Lit ''800000''])] [],
          Elem ''stat'' [(''name'', [Lit ''write_accesses'']), (''value'', [Lit ''27276''])] [],
          Elem ''stat'' [(''name'', [Lit ''read_misses'']), (''value'', [Lit ''1632''])] [],
          Elem ''stat'' [(''name'', [Lit ''write_misses'']), (''value'', [Lit ''183''])] [],
          Elem ''stat'' [(''name'', [Lit ''conflicts'']), (''value'', [Lit ''0''])] []],
        Elem ''param'' [(''name'', [Lit ''number_of_BTB'']), (''value'', [Lit ''2''])] [],
        Elem ''component'' [(''id'', [Lit ''system.core0.BTB'']), (''name'', [Lit ''BTB''])] [
          Elem ''param'' [(''name'', [Lit ''BTB_config'']), (''value'', [Lit ''4096,4,2, 2, 1,1''])] [],
          Elem ''stat'' [(''name'', [Lit ''read_accesses'']), (''value'', [Lit ''400000''])] [],
          Elem ''stat'' [(''name'', [Lit ''write_accesses'']), (''value'', [Lit ''0''])] []]],
      Elem ''component'' [(''id'', [Lit ''system.L20'']), (''name'', [Lit ''L20''])] [
        Elem ''param'' [(''name'', [Lit ''L2_config'']), (''value'', [Lit ''1048576,32, 8, 8, 8, 23, 32, 1''])] [],
        Elem ''param'' [(''name'', [Lit ''buffer_sizes'']), (''value'', [Lit ''16, 16, 16, 16''])] [],
        Elem ''param'' [(''name'', [Lit ''clockrate'']), (''value'', [Lit ''3400''])] [],
        Elem ''param'' [(''name'', [Lit ''ports'']), (''value'', [Lit ''1,1,1''])] [],
        Elem ''param'' [(''name'', [Lit ''device_type'']), (''value'', [Lit ''0''])] [],
        Elem ''stat'' [(''name'', [Lit ''read_accesses'']), (''value'', [Lit ''200000''])] [],
        Elem ''stat'' [(''name'', [Lit ''write_accesses'']), (''value'', [Lit ''27276''])] [],
        Elem ''stat'' [(''name'', [Lit ''read_misses'']), (''value'', [Lit ''1632''])] [],
        Elem ''stat'' [(''name'', [Lit ''write_misses'']), (''value'', [Lit ''183''])] [],
        Elem ''stat'' [(''name'', [Lit ''conflicts'']), (''value'', [Lit ''0''])] [],
        Elem ''stat'' [(''name'', [Lit ''duty_cycle'']), (''value'', [Lit ''1.0''])] []],
      Elem ''component'' [(''id'', [Lit ''system.mc'']), (''name'', [Lit ''mc''])] [
        Elem ''param'' [(''name'', [Lit ''type'']), (''value'', [Lit ''1''])] [],
        Elem ''param'' [(''name'', [Lit ''mc_clock'']), (''value'', [Lit ''400''])] [],
        Elem ''param'' [(''name'', [Lit ''peak_transfer_rate'']), (''value'', [Lit ''6400''])] [],
        Elem ''param'' [(''name'', [Lit ''block_size'']), (''value'', [Lit ''64''])] [],
        Elem ''param'' [(''name'', [Lit ''number_mcs'']), (''value'', [Lit ''0''])] [],
        Elem ''param'' [(''name'', [Lit ''memory_channels_per_mc'']), (''value'', [Lit ''1''])] [],
        Elem ''param'' [(''name'', [Lit ''number_ranks'']), (''value'', [Lit ''0''])] [],
        Elem ''param'' [(''name'', [Lit ''req_window_size_per_channel'']), (''value'', [Lit ''32''])] [],
        Elem ''param'' [(''name'', [Lit ''IO_buffer_size_per_channel'']), (''value'', [Lit ''32''])] [],
        Elem ''param'' [(''name'', [Lit ''databus_width'']), (''value'', [Lit ''128''])] [],
        Elem ''param'' [(''name'', [Lit ''addressbus_width'']), (''value'', [Lit ''51''])] [],
        Elem ''stat'' [(''name'', [Lit ''memory_accesses'']), (''value'', [Lit ''66666''])] [],
        Elem ''stat'' [(''name'', [Lit ''memory_reads'']), (''value'', [Lit ''33333''])] [],
        Elem ''stat'' [(''name'', [Lit ''memory_writes'']), (''value'', [Lit ''33333''])] [],
        Elem ''param'' [(''name'', [Lit ''withPHY'']), (''value'', [Lit ''1''])] []]]]
"

definition root :: "path option" where
  "root = Some []"

text \<open>\<open>node.find(...).attrib['value'] = str(int(x))\<close>\<close>

definition write_int :: "path option \<Rightarrow> string \<Rightarrow> string \<Rightarrow> pyfloat \<Rightarrow> unit prog" where
  "write_int node t x fl = bnd (str_int_of fl) (\<lambda>v. write_val node t x v)"

text \<open>
  The block \<open>if system_node:\<close>. It assigns the local variables \<open>total_cycles\<close> and
  \<open>clock_rate_mhz\<close>, which the model returns (\<open>None\<close> when the block is skipped).
\<close>

definition system_params ::
  "stat_table \<Rightarrow> nat \<Rightarrow> path option \<Rightarrow> (pyfloat \<times> pyfloat) option prog" where
  "system_params stats_data num_cores system_node =
     bnd (truthy system_node) (\<lambda>b.
     if \<not> b then ret None
     else
       bnd (write_val system_node ''param'' ''number_of_cores'' [StrOf (PInt (int num_cores))]) (\<lambda>_.
       bnd (stat stats_data ''total_cycles'' 0) (\<lambda>total_cycles.
       bnd (write_int system_node ''stat'' ''total_cycles'' total_cycles) (\<lambda>_.
       bnd (write_int system_node ''stat'' ''busy_cycles'' total_cycles) (\<lambda>_.
       bnd (stat stats_data ''system.clk_domain.clock'' 1000000000) (\<lambda>clock_rate_hz.
       bnd (write_val system_node ''param'' ''target_core_clockrate''
              [StrOf (PFloat (py_fdiv clock_rate_hz 1000000))]) (\<lambda>_.
       ret (Some (total_cycles, py_fdiv clock_rate_hz 1000000)))))))))"

text \<open>
  The body of \<open>try:\<close> for an L1 cache up to the f-string:
  \<^verbatim>\<open>l1_config = config['board']['cache_hierarchy'][key][i]\<close>
  \<^verbatim>\<open>size = int(l1_config['size'].replace('B', '')) if isinstance(l1_config['size'], str) else l1_config['size']\<close>
  \<^verbatim>\<open>assoc = l1_config['assoc']\<close>
  \<^verbatim>\<open>f"{size},{cache_line_size},{assoc},1,10,10,{cache_line_size},<flag>"\<close>
\<close>

definition l1_config_text :: "pyobj \<Rightarrow> string \<Rightarrow> nat \<Rightarrow> pyobj \<Rightarrow> string \<Rightarrow> error + ptext" where
  "l1_config_text config key i cache_line_size flag =
     sbind (py_item config ''board'') (\<lambda>board.
     sbind (py_item board ''cache_hierarchy'') (\<lambda>hierarchy.
     sbind (py_item hierarchy key) (\<lambda>caches.
     sbind (py_index caches i) (\<lambda>l1_config.
     sbind (py_item l1_config ''size'') (\<lambda>sz.
     sbind (case sz of
              PStr s \<Rightarrow> (case py_int_of_str (filter (\<lambda>c. c \<noteq> CHR ''B'') s) of
                           Some n \<Rightarrow> Inr (PInt n)
                         | None \<Rightarrow> Inl ValueError)
            | _ \<Rightarrow> Inr sz) (\<lambda>size.
     sbind (py_item l1_config ''assoc'') (\<lambda>assoc.
     Inr [StrOf size, Lit '','', StrOf cache_line_size, Lit '','', StrOf assoc,
          Lit '',1,10,10,'', StrOf cache_line_size, Lit ('','' @ flag)])))))))"

definition l1i_warning :: ptext where
  "l1i_warning = [Lit ''Warning: Could not find L1I cache config. Using defaults.'']"

definition l1d_warning :: ptext where
  "l1d_warning = [Lit ''Warning: Could not find L1D cache config. Using defaults.'']"

text \<open>
  The two blocks \<open>if icache_config_node: try: ... except (KeyError, IndexError): print(...)\<close>
  and \<open>if dcache_config_node: ...\<close> differ in the parameter written, the key of the cache
  list, the last field of the f-string and the warning.
\<close>

definition l1_cache_params ::
  "path option \<Rightarrow> string \<Rightarrow> pyobj \<Rightarrow> string \<Rightarrow> nat \<Rightarrow> pyobj \<Rightarrow> string \<Rightarrow> ptext \<Rightarrow> unit prog" where
  "l1_cache_params cache_node param config key i cache_line_size flag warning =
     bnd (truthy cache_node) (\<lambda>b.
     if b then
       try_except
         (bnd (lift (l1_config_text config key i cache_line_size flag)) (\<lambda>v.
          write_val cache_node ''param'' param v))
         (print warning)
     else ret ())"

text \<open>The body of \<open>for i in range(num_cores):\<close>\<close>

definition core_params ::
  "stat_table \<Rightarrow> pyobj \<Rightarrow> pyobj \<Rightarrow> (pyfloat \<times> pyfloat) option \<Rightarrow> nat \<Rightarrow> unit prog" where
  "core_params stats_data config cache_line_size vars i =
     bnd (find root ''component'' (''core'' @ str_nat i)) (\<lambda>core_node.
     bnd (truthy core_node) (\<lambda>b.
     if \<not> b then ret ()
     else
       bnd (var vars) (\<lambda>(total_cycles, clock_rate_mhz).
       bnd (write_val core_node ''param'' ''clock_rate'' [StrOf (PFloat clock_rate_mhz)]) (\<lambda>_.
       bnd (stat stats_data ''committedInsts'' 0) (\<lambda>committed_insts.
       bnd (stat stats_data ''int_insts'' 0) (\<lambda>committed_int.
       bnd (stat stats_data ''fp_insts'' 0) (\<lambda>committed_fp.
       bnd (stat stats_data ''branches'' 0) (\<lambda>branches.
       bnd (stat stats_data ''branchMispredicts'' 0) (\<lambda>branch_mispredicts.
       bnd (stat stats_data (''system.l1dcaches'' @ str_nat i @ ''.ReadReq::total'') 0) (\<lambda>dcache_reads.
       bnd (stat stats_data (''system.l1dcaches'' @ str_nat i @ ''.WriteReq::total'') 0) (\<lambda>dcache_writes.
       bnd (write_int core_node ''stat'' ''total_instructions'' committed_insts) (\<lambda>_.
       bnd (write_int core_node ''stat'' ''int_instructions'' committed_int) (\<lambda>_.
       bnd (write_int core_node ''stat'' ''fp_instructions'' committed_fp) (\<lambda>_.
       bnd (write_int core_node ''stat'' ''branch_instructions'' branches) (\<lambda>_.
       bnd (write_int core_node ''stat'' ''branch_mispredictions'' branch_mispredicts) (\<lambda>_.
       bnd (write_int core_node ''stat'' ''load_instructions'' dcache_reads) (\<lambda>_.
       bnd (write_int core_node ''stat'' ''store_instructions'' dcache_writes) (\<lambda>_.
       bnd (write_int core_node ''stat'' ''committed_instructions'' committed_insts) (\<lambda>_.
       bnd (write_int core_node ''stat'' ''committed_int_instructions'' committed_int) (\<lambda>_.
       bnd (write_int core_node ''stat'' ''committed_fp_instructions'' committed_fp) (\<lambda>_.
       bnd (write_int core_node ''stat'' ''total_cycles'' total_cycles) (\<lambda>_.
       bnd (write_int core_node ''stat'' ''busy_cycles'' total_cycles) (\<lambda>_.
       bnd (find core_node ''component'' ''icache'') (\<lambda>icache_config_node.
       bnd (find core_node ''component'' ''dcache'') (\<lambda>dcache_config_node.
       bnd (l1_cache_params icache_config_node ''icache_config'' config ''l1icaches'' i
              cache_line_size ''0'' l1i_warning) (\<lambda>_.
       l1_cache_params dcache_config_node ''dcache_config'' config ''l1dcaches'' i
         cache_line_size ''1'' l1d_warning))))))))))))))))))))))))))"

text \<open>The body of \<open>for i in range(num_l2s):\<close>\<close>

definition l2_params :: "stat_table \<Rightarrow> nat \<Rightarrow> unit prog" where
  "l2_params stats_data i =
     bnd (find root ''component'' (''L2'' @ str_nat i)) (\<lambda>l2_node.
     bnd (truthy l2_node) (\<lambda>b.
     if \<not> b then ret ()
     else
       bnd (stat stats_data ''system.l2cache.ReadReq::total'' 0) (\<lambda>l2_reads.
       bnd (stat stats_data ''system.l2cache.WriteReq::total'' 0) (\<lambda>l2_writes.
       bnd (write_int l2_node ''stat'' ''read_accesses'' l2_reads) (\<lambda>_.
       write_int l2_node ''stat'' ''write_accesses'' l2_writes)))))"

text \<open>The statements of \<open>create_mcpat_xml\<close> after the template has been parsed.\<close>

definition populate :: "stat_table \<Rightarrow> pyobj \<Rightarrow> unit prog" where
  "populate stats_data config =
     bnd (lift (cache_line_size_of config)) (\<lambda>cache_line_size.
     bnd (lift (num_cores_of config)) (\<lambda>num_cores.
     bnd (find root ''component'' ''system'') (\<lambda>system_node.
     bnd (system_params stats_data num_cores system_node) (\<lambda>vars.
     bnd (for_each [0..<num_cores] (core_params stats_data config cache_line_size vars)) (\<lambda>_.
     bnd (read_val system_node ''param'' ''number_of_L2s'') (\<lambda>t.
     bnd (lift (py_int_of_text t)) (\<lambda>num_l2s.
     for_each [0..<nat num_l2s] (l2_params stats_data))))))))"

text \<open>
  \<open>create_mcpat_xml(stats_data, config)\<close>: the tree whose serialisation the function returns,
  or the exception it raises, together with the lines it has printed.
\<close>

definition create_mcpat_xml :: "stat_table \<Rightarrow> pyobj \<Rightarrow> (error + xml) \<times> ptext list" where
  "create_mcpat_xml stats_data config0 =
     (case config_guard config0 of
        Inl e \<Rightarrow> (Inl e, [])
      | Inr config \<Rightarrow>
          (case populate stats_data config (mcpat_template, []) of
             (Inl e, s) \<Rightarrow> (Inl e, snd s)
           | (Inr u, s) \<Rightarrow> (Inr (fst s), snd s)))"

section \<open>The tree after each block of \<open>create_mcpat_xml\<close> (custom\_converter.py)\<close>

text \<open>
  The assignments of a block that runs to its end, as one expression: the paths are those
  of the elements that the block's \<open>find\<close> calls reach in the template. These definitions
  summarise the program for the proofs; the lemmas on \<open>system_params\<close>, \<open>core_params\<close>
  and \<open>l2_params\<close> below show that the program computes them.
\<close>

text \<open>
  The float that \<open>get_stat_value\<close> returns, and the lines it prints, when the default is an
  int within the range of the floats, as it is in every call of the source.
\<close>

definition resolved :: "stat_table \<Rightarrow> string \<Rightarrow> int \<Rightarrow> pyfloat" where
  "resolved stats key n =
     (if key \<in> dom stats then the (stats key)
      else case alias_lookup stats (stats_map_get key) of
             Some v \<Rightarrow> v
           | None \<Rightarrow> Fin (of_int n))"

definition resolve_lines :: "stat_table \<Rightarrow> string \<Rightarrow> int \<Rightarrow> ptext list" where
  "resolve_lines stats key n =
     (if key \<in> dom stats then []
      else case alias_lookup stats (stats_map_get key) of
             Some v \<Rightarrow> []
           | None \<Rightarrow> [stat_warning key (PInt n)])"

fun finite_float :: "pyfloat \<Rightarrow> bool" where
  "finite_float (Fin r) = True"
| "finite_float PInf = False"
| "finite_float NInf = False"
| "finite_float NaN = False"

definition stat0 :: "stat_table \<Rightarrow> string \<Rightarrow> pyfloat" where
  "stat0 stats key = resolved stats key 0"

definition total_cycles_of :: "stat_table \<Rightarrow> pyfloat" where
  "total_cycles_of stats = stat0 stats ''total_cycles''"

definition clock_rate_mhz_of :: "stat_table \<Rightarrow> pyfloat" where
  "clock_rate_mhz_of stats =
     py_fdiv (resolved stats ''system.clk_domain.clock'' 1000000000) 1000000"

definition int_text :: "pyfloat \<Rightarrow> ptext" where
  "int_text x = [StrOf (PInt (int_of x))]"

definition system_tree :: "stat_table \<Rightarrow> nat \<Rightarrow> xml \<Rightarrow> xml" where
  "system_tree stats n t =
     set_val [0, 14] [StrOf (PFloat (clock_rate_mhz_of stats))]
    (set_val [0, 28] (int_text (total_cycles_of stats))
    (set_val [0, 26] (int_text (total_cycles_of stats))
    (set_val [0, 0] [StrOf (PInt (int n))] t)))"

definition system_warnings :: "stat_table \<Rightarrow> ptext list" where
  "system_warnings stats =
     resolve_lines stats ''total_cycles'' 0
     @ resolve_lines stats ''system.clk_domain.clock'' 1000000000"

definition core0_tree :: "stat_table \<Rightarrow> pyfloat \<Rightarrow> pyfloat \<Rightarrow> xml \<Rightarrow> xml" where
  "core0_tree stats tc mhz t =
     set_val [0, 29, 52] (int_text tc)
    (set_val [0, 29, 50] (int_text tc)
    (set_val [0, 29, 48] (int_text (stat0 stats ''fp_insts''))
    (set_val [0, 29, 47] (int_text (stat0 stats ''int_insts''))
    (set_val [0, 29, 46] (int_text (stat0 stats ''committedInsts''))
    (set_val [0, 29, 45] (int_text (stat0 stats ''system.l1dcaches0.WriteReq::total''))
    (set_val [0, 29, 44] (int_text (stat0 stats ''system.l1dcaches0.ReadReq::total''))
    (set_val [0, 29, 43] (int_text (stat0 stats ''branchMispredicts''))
    (set_val [0, 29, 42] (int_text (stat0 stats ''branches''))
    (set_val [0, 29, 41] (int_text (stat0 stats ''fp_insts''))
    (set_val [0, 29, 40] (int_text (stat0 stats ''int_insts''))
    (set_val [0, 29, 39] (int_text (stat0 stats ''committedInsts''))
    (set_val [0, 29, 0] [StrOf (PFloat mhz)] t))))))))))))"

definition core0_warnings :: "stat_table \<Rightarrow> ptext list" where
  "core0_warnings stats =
     resolve_lines stats ''committedInsts'' 0
     @ resolve_lines stats ''int_insts'' 0
     @ resolve_lines stats ''fp_insts'' 0
     @ resolve_lines stats ''branches'' 0
     @ resolve_lines stats ''branchMispredicts'' 0
     @ resolve_lines stats ''system.l1dcaches0.ReadReq::total'' 0
     @ resolve_lines stats ''system.l1dcaches0.WriteReq::total'' 0"

definition core0_floats :: "stat_table \<Rightarrow> pyfloat list" where
  "core0_floats stats =
     map (stat0 stats)
       [''committedInsts'', ''int_insts'', ''fp_insts'', ''branches'', ''branchMispredicts'',
        ''system.l1dcaches0.ReadReq::total'', ''system.l1dcaches0.WriteReq::total'']"

text \<open>The outcome of one L1 block: the f-string is written, or one warning is printed.\<close>

definition l1_tree :: "error + ptext \<Rightarrow> path \<Rightarrow> xml \<Rightarrow> xml" where
  "l1_tree r p t = (case r of Inr v \<Rightarrow> set_val p v t | Inl e \<Rightarrow> t)"

definition l1_warnings :: "error + ptext \<Rightarrow> ptext \<Rightarrow> ptext list" where
  "l1_warnings r w = (case r of Inr v \<Rightarrow> [] | Inl e \<Rightarrow> [w])"

definition l1_recovers :: "error + ptext \<Rightarrow> bool" where
  "l1_recovers r = (case r of Inr v \<Rightarrow> True | Inl e \<Rightarrow> e = KeyError \<or> e = IndexError)"

definition l2_tree :: "stat_table \<Rightarrow> xml \<Rightarrow> xml" where
  "l2_tree stats t =
     set_val [0, 30, 6] (int_text (stat0 stats ''system.l2cache.WriteReq::total''))
    (set_val [0, 30, 5] (int_text (stat0 stats ''system.l2cache.ReadReq::total'')) t)"

definition l2_warnings :: "stat_table \<Rightarrow> ptext list" where
  "l2_warnings stats =
     resolve_lines stats ''system.l2cache.ReadReq::total'' 0
     @ resolve_lines stats ''system.l2cache.WriteReq::total'' 0"

definition l2_floats :: "stat_table \<Rightarrow> pyfloat list" where
  "l2_floats stats =
     map (stat0 stats) [''system.l2cache.ReadReq::total'', ''system.l2cache.WriteReq::total'']"

text \<open>
  The whole run, for a configuration whose cache line size is \<open>cls\<close> and whose core count
  is \<open>n\<close>: the condition under which no statement raises, the tree returned and the lines
  printed. Only the iteration for core 0 finds its component.
\<close>

definition l1i_result :: "pyobj \<Rightarrow> pyobj \<Rightarrow> error + ptext" where
  "l1i_result config cls = l1_config_text config ''l1icaches'' 0 cls ''0''"

definition l1d_result :: "pyobj \<Rightarrow> pyobj \<Rightarrow> error + ptext" where
  "l1d_result config cls = l1_config_text config ''l1dcaches'' 0 cls ''1''"

definition cores_ok :: "stat_table \<Rightarrow> pyobj \<Rightarrow> pyobj \<Rightarrow> nat \<Rightarrow> bool" where
  "cores_ok stats config cls n =
     (if n = 0 then True
      else list_all finite_float (core0_floats stats)
           \<and> l1_recovers (l1i_result config cls) \<and> l1_recovers (l1d_result config cls))"

definition populate_ok :: "stat_table \<Rightarrow> pyobj \<Rightarrow> pyobj \<Rightarrow> nat \<Rightarrow> bool" where
  "populate_ok stats config cls n =
     (finite_float (total_cycles_of stats) \<and> cores_ok stats config cls n
      \<and> list_all finite_float (l2_floats stats))"

definition cores_tree :: "stat_table \<Rightarrow> pyobj \<Rightarrow> pyobj \<Rightarrow> nat \<Rightarrow> xml \<Rightarrow> xml" where
  "cores_tree stats config cls n t =
     (if n = 0 then t
      else l1_tree (l1d_result config cls) [0, 29, 93, 0]
          (l1_tree (l1i_result config cls) [0, 29, 91, 0]
          (core0_tree stats (total_cycles_of stats) (clock_rate_mhz_of stats) t)))"

definition cores_warnings :: "stat_table \<Rightarrow> pyobj \<Rightarrow> pyobj \<Rightarrow> nat \<Rightarrow> ptext list" where
  "cores_warnings stats config cls n =
     (if n = 0 then []
      else core0_warnings stats @ l1_warnings (l1i_result config cls) l1i_warning
           @ l1_warnings (l1d_result config cls) l1d_warning)"

definition populated_tree :: "stat_table \<Rightarrow> pyobj \<Rightarrow> pyobj \<Rightarrow> nat \<Rightarrow> xml" where
  "populated_tree stats config cls n =
     l2_tree stats (cores_tree stats config cls n (system_tree stats n mcpat_template))"

definition populated_out :: "stat_table \<Rightarrow> pyobj \<Rightarrow> pyobj \<Rightarrow> nat \<Rightarrow> ptext list" where
  "populated_out stats config cls n =
     system_warnings stats @ cores_warnings stats config cls n @ l2_warnings stats"

section \<open>Concrete inputs\<close>

text \<open>
  Configurations used to evaluate the program:
  \<^verbatim>\<open>{"board": {"processor": {"cores": []}}}\<close>,
  \<^verbatim>\<open>{"board": {"processor": {"cores": [{}]}}}\<close>,
  \<^verbatim>\<open>{"board": {"processor": {"cores": [{}, {}]}}}\<close> and
  \<^verbatim>\<open>{"board": {"cache_line_size": 64, "processor": {"cores": [{}]}, "cache_hierarchy":
      {"l1icaches": [{"size": 32768, "assoc": 8}], "l1dcaches": [{"size": "65536B", "assoc": 4}]}}}\<close>.
\<close>

definition config_cores :: "pyobj list \<Rightarrow> pyobj" where
  "config_cores cores = PDict [(''board'', PDict [(''processor'', PDict [(''cores'', PList cores)])])]"


section \<open>backup.py\<close>

subsection \<open>Arithmetic on resolved values\<close>

text \<open>
  The resolver of backup.py returns a float, or the default as it is (an int in every call
  of the source). \<open>x / 1000000.0\<close> and \<open>x + y\<close> on such values:
\<close>

fun fadd :: "pyfloat \<Rightarrow> pyfloat \<Rightarrow> pyfloat" where
  "fadd (Fin a) (Fin b) = Fin (a + b)"
| "fadd NaN y = NaN"
| "fadd x NaN = NaN"
| "fadd PInf NInf = NaN"
| "fadd NInf PInf = NaN"
| "fadd PInf y = PInf"
| "fadd x PInf = PInf"
| "fadd NInf y = NInf"
| "fadd x NInf = NInf"

text \<open>A number as an operand of float arithmetic; \<open>None\<close> for a value that is not a number.\<close>

fun as_float :: "pyobj \<Rightarrow> (error + pyfloat) option" where
  "as_float (PInt n) = Some (float_of_int n)"
| "as_float (PBool b) = Some (Inr (Fin (if b then 1 else 0)))"
| "as_float (PFloat f) = Some (Inr f)"
| "as_float PNone = None"
| "as_float (PStr s) = None"
| "as_float (PList l) = None"
| "as_float (PDict kvs) = None"

text \<open>\<open>x / d\<close> for a positive finite float constant \<open>d\<close>.\<close>

definition py_truediv :: "pyobj \<Rightarrow> real \<Rightarrow> error + pyfloat" where
  "py_truediv x d =
     (case as_float x of
        None \<Rightarrow> Inl TypeError
      | Some r \<Rightarrow> sbind r (\<lambda>f. Inr (py_fdiv f d)))"

text \<open>
  \<open>n / d\<close> for two ints: the float nearest to the quotient, OverflowError when the
  quotient is beyond the largest float.
\<close>

definition py_int_truediv :: "int \<Rightarrow> int \<Rightarrow> error + pyfloat" where
  "py_int_truediv n d =
     (if d = 0 then Inl ZeroDivisionError
      else if \<bar>real_of_int n / real_of_int d\<bar> < real_of_int float_int_bound
      then Inr (Fin (real_of_int n / real_of_int d))
      else Inl OverflowError)"

fun as_int :: "pyobj \<Rightarrow> int option" where
  "as_int (PInt n) = Some n"
| "as_int (PBool b) = Some (if b then 1 else 0)"
| "as_int PNone = None"
| "as_int (PFloat f) = None"
| "as_int (PStr s) = None"
| "as_int (PList l) = None"
| "as_int (PDict kvs) = None"

text \<open>
  \<open>x + y\<close>: int addition on two ints, float addition when a float is involved,
  concatenation of two strings or two lists, TypeError otherwise.
\<close>

definition py_add :: "pyobj \<Rightarrow> pyobj \<Rightarrow> error + pyobj" where
  "py_add x y =
     (case (as_int x, as_int y) of
        (Some a, Some b) \<Rightarrow> Inr (PInt (a + b))
      | _ \<Rightarrow>
        (case (as_float x, as_float y) of
           (Some r, Some q) \<Rightarrow> sbind r (\<lambda>f. sbind q (\<lambda>g. Inr (PFloat (fadd f g))))
         | _ \<Rightarrow>
           (case (x, y) of
              (PStr s, PStr t) \<Rightarrow> Inr (PStr (s @ t))
            | (PList l, PList m) \<Rightarrow> Inr (PList (l @ m))
            | _ \<Rightarrow> Inl TypeError)))"

subsection \<open>\<open>parse_config\<close> and \<open>create_mcpat_xml\<close> of backup.py\<close>

text \<open>\<open>parse_config\<close> returns what \<open>json.load\<close> returned.\<close>

definition backup_parse_config :: "pyobj \<Rightarrow> error + pyobj" where
  "backup_parse_config config_data = Inr config_data"

definition backup_template :: xml where
  "backup_template =
  Elem ''component'' [(''id'', [Lit ''root'']), (''name'', [Lit ''root''])] [
    Elem ''component'' [(''id'', [Lit ''system'']), (''name'', [Lit ''system''])] [
      Elem ''param'' [(''name'', [Lit ''number_of_cores'']), (''value'', [Lit ''1''])] [],
      Elem ''param'' [(''name'', [Lit ''number_of_L1I_caches'']), (''value'', [Lit ''1''])] [],
      Elem ''param'' [(''name'', [Lit ''number_of_L1D_caches'']), (''value'', [Lit ''1''])] [],
      Elem ''param'' [(''name'', [Lit ''number_of_L2_caches'']), (''value'', [Lit ''1''])] [],
      Elem ''param'' [(''name'', [Lit ''number_of_L3_caches'']), (''value'', [Lit ''0''])] [],
      Elem ''param'' [(''name'', [Lit ''number_of_NoC'']), (''value'', [Lit ''0''])] [],
      Elem ''param'' [(''name'', [Lit ''target_core_clockrate'']), (''value'', [Lit ''0''])] [],
      Elem ''param'' [(''name'', [Lit ''total_cycles'']), (''value'', [Lit ''0''])] [],
      Elem ''param'' [(''name'', [Lit ''peak_power_per_chip'']), (''value'', [Lit ''0''])] [],
      Elem ''param'' [(''name'', [Lit ''total_insts'']), (''value'', [Lit ''0''])] [],
      Elem ''param'' [(''name'', [Lit ''number_of_L1Directories'']), (''value'', [Lit ''0''])] [],
      Elem ''param'' [(''name'', [Lit ''homogeneous_L1Directories'']), (''value'', [Lit ''1''])] [],
      Elem ''component'' [(''id'', [Lit ''core0'']), (''name'', [Lit ''core''])] [
        Elem ''param'' [(''name'', [Lit ''clock_rate'']), (''value'', [Lit ''0''])] [],
        Elem ''param'' [(''name'', [Lit ''total_inst'']), (''value'', [Lit ''0''])] [],
        Elem ''param'' [(''name'', [Lit ''int_inst'']), (''value'', [Lit ''0''])] [],
        Elem ''param'' [(''name'', [Lit ''fp_inst'']), (''value'', [Lit ''0''])] [],
        Elem ''param'' [(''name'', [Lit ''load_inst'']), (''value'', [Lit ''0''])] [],
        Elem ''param'' [(''name'', [Lit ''store_inst'']), (''value'', [Lit ''0''])] [],
        Elem ''param'' [(''name'', [Lit ''committed_inst'']), (''value'', [Lit ''0''])] [],
        Elem ''param'' [(''name'', [Lit ''committed_int_inst'']), (''value'', [Lit ''0''])] [],
        Elem ''param'' [(''name'', [Lit ''committed_fp_inst'']), (''value'', [Lit ''0''])] [],
        Elem ''param'' [(''name'', [Lit ''rob_accesses'']), (''value'', [Lit ''0''])] [],
        Elem ''param'' [(''name'', [Lit ''issue_queue_accesses'']), (''value'', [Lit ''0''])] [],
        Elem ''param'' [(''name'', [Lit ''int_regfile_reads'']), (''value'', [Lit ''0''])] [],
        Elem ''param'' [(''name'', [Lit ''fp_regfile_reads'']), (''value'', [Lit ''0''])] [],
        Elem ''param'' [(''name'', [Lit ''int_regfile_writes'']), (''value'', [Lit ''0''])] [],
        Elem ''param'' [(''name'', [Lit ''fp_regfile_writes'']), (''value'', [Lit ''0''])] [],
        Elem ''param'' [(''name'', [Lit ''rename_accesses'']), (''value'', [Lit ''0''])] [],
        Elem ''param'' [(''name'', [Lit ''rob_reads'']), (''value'', [Lit ''0''])] [],
        Elem ''param'' [(''name'', [Lit ''rob_writes'']), (''value'', [Lit ''0''])] [],
        Elem ''param'' [(''name'', [Lit ''L1I_hits'']), (''value'', [Lit ''0''])] [],
        Elem ''param'' [(''name'', [Lit ''L1I_misses'']), (''value'', [Lit ''0''])] [],
        Elem ''param'' [(''name'', [Lit ''L1D_hits'']), (''value'', [Lit ''0''])] [],
        Elem ''param'' [(''name'', [Lit ''L1D_misses'']), (''value'', [Lit ''0''])] [],
        Elem ''param'' [(''name'', [Lit ''L2_hits'']), (''value'', [Lit ''0''])] [],
        Elem ''param'' [(''name'', [Lit ''L2_misses'']), (''value'', [Lit ''0''])] [],
        Elem ''param'' [(''name'', [Lit ''Instruction_Fetch_Buffer_reads'']), (''value'', [Lit ''0''])] [],
        Elem ''param'' [(''name'', [Lit ''Instruction_Fetch_Buffer_writes'']), (''value'', [Lit ''0''])] [],
        Elem ''param'' [(''name'', [Lit ''ITLB_accesses'']), (''value'', [Lit ''0''])] [],
        Elem ''param'' [(''name'', [Lit ''ITLB_misses'']), (''value'', [Lit ''0''])] [],
        Elem ''param'' [(''name'', [Lit ''DTLB_accesses'']), (''value'', [Lit ''0''])] [],
        Elem ''param'' [(''name'', [Lit ''DTLB_misses'']), (''value'', [Lit ''0''])] [],
        Elem ''param'' [(''name'', [Lit ''branch_insts'']), (''value'', [Lit ''0''])] [],
        Elem ''param'' [(''name'', [Lit ''branch_mispredictions'']), (''value'', [Lit ''0''])] []],
      Elem ''component'' [(''id'', [Lit ''L1_I_cache'']), (''name'', [Lit ''L1Icache''])] [
        Elem ''param'' [(''name'', [Lit ''cache_size'']), (''value'', [Lit ''0''])] [],
        Elem ''param'' [(''name'', [Lit ''line_size'']), (''value'', [Lit ''0''])] [],
        Elem ''param'' [(''name'', [Lit ''associativity'']), (''value'', [Lit ''0''])] [],
        Elem ''param'' [(''name'', [Lit ''bank'']), (''value'', [Lit ''1''])] [],
        Elem ''param'' [(''name'', [Lit ''sequential_access'']), (''value'', [Lit ''true''])] [],
        Elem ''param'' [(''name'', [Lit ''read_accesses'']), (''value'', [Lit ''0''])] [],
        Elem ''param'' [(''name'', [Lit ''write_accesses'']), (''value'', [Lit ''0''])] [],
        Elem ''param'' [(''name'', [Lit ''total_accesses'']), (''value'', [Lit ''0''])] [],
        Elem ''param'' [(''name'', [Lit ''total_reads'']), (''value'', [Lit ''0''])] [],
        Elem ''param'' [(''name'', [Lit ''total_writes'']), (''value'', [Lit ''0''])] []],
      Elem ''component'' [(''id'', [Lit ''L1_D_cache'']), (''name'', [Lit ''L1Dcache''])] [
        Elem ''param'' [(''name'', [Lit ''cache_size'']), (''value'', [Lit ''0''])] [],
        Elem ''param'' [(''name'', [Lit ''line_size'']), (''value'', [Lit ''0''])] [],
        Elem ''param'' [(''name'', [Lit ''associativity'']), (''value'', [Lit ''0''])] [],
        Elem ''param'' [(''name'', [Lit ''bank'']), (''value'', [Lit ''1''])] [],
        Elem ''param'' [(''name'', [Lit ''sequential_access'']), (''value'', [Lit ''true''])] [],
        Elem ''param'' [(''name'', [Lit ''read_accesses'']), (''value'', [Lit ''0''])] [],
        Elem ''param'' [(''name'', [Lit ''write_accesses'']), (''value'', [Lit ''0''])] [],
        Elem ''param'' [(''name'', [Lit ''total_accesses'']), (''value'', [Lit ''0''])] [],
        Elem ''param'' [(''name'', [Lit ''total_reads'']), (''value'', [Lit ''0''])] [],
        Elem ''param'' [(''name'', [Lit ''total_writes'']), (''value'', [Lit ''0''])] []],
      Elem ''component'' [(''id'', [Lit ''L2_cache'']), (''name'', [Lit ''L2cache''])] [
        Elem ''param'' [(''name'', [Lit ''cache_size'']), (''value'', [Lit ''0''])] [],
        Elem ''param'' [(''name'', [Lit ''line_size'']), (''value'', [Lit ''0''])] [],
        Elem ''param'' [(''name'', [Lit ''associativity'']), (''value'', [Lit ''0''])] [],
        Elem ''param'' [(''name'', [Lit ''bank'']), (''value'', [Lit ''1''])] [],
        Elem ''param'' [(''name'', [Lit ''sequential_access'']), (''value'', [Lit ''true''])] [],
        Elem ''param'' [(''name'', [Lit ''read_accesses'']), (''value'', [Lit ''0''])] [],
        Elem ''param'' [(''name'', [Lit ''write_accesses'']), (''value'', [Lit ''0''])] [],
        Elem ''param'' [(''name'', [Lit ''total_accesses'']), (''value'', [Lit ''0''])] [],
        Elem ''param'' [(''name'', [Lit ''total_reads'']), (''value'', [Lit ''0''])] [],
        Elem ''param'' [(''name'', [Lit ''total_writes'']), (''value'', [Lit ''0''])] []],
      Elem ''component'' [(''id'', [Lit ''main_memory'']), (''name'', [Lit ''main_memory''])] [
        Elem ''param'' [(''name'', [Lit ''peak_memory_bw'']), (''value'', [Lit ''25.6''])] [],
        Elem ''param'' [(''name'', [Lit ''ext_dram_accesses'']), (''value'', [Lit ''0''])] []]]]
"

text \<open>A call of the resolver inside a program.\<close>

definition backup_stat :: "raw_table \<Rightarrow> string \<Rightarrow> int \<Rightarrow> pyobj prog" where
  "backup_stat stats key dflt = lift (fst (backup_get_stat_value stats key (PInt dflt)))"

text \<open>\<open>node.find(".//param[@name='x']").attrib['value'] = str(int(v))\<close>\<close>

definition write_num :: "path option \<Rightarrow> string \<Rightarrow> pyobj \<Rightarrow> unit prog" where
  "write_num node x v = bnd (lift (py_int v)) (\<lambda>n. write_val node ''param'' x [StrOf (PInt n)])"

text \<open>
  \<open>node.find(".//param[@name='x']").attrib['value'] = str(int(get_stat_value(stats, key, 0)))\<close>
\<close>

definition write_stat :: "path option \<Rightarrow> string \<Rightarrow> raw_table \<Rightarrow> string \<Rightarrow> unit prog" where
  "write_stat node x stats key = bnd (backup_stat stats key 0) (\<lambda>v. write_num node x v)"

text \<open>The block \<open>if system_node:\<close>; it assigns \<open>clock_rate_mhz\<close>.\<close>

definition backup_system_params :: "raw_table \<Rightarrow> path option \<Rightarrow> pyfloat option prog" where
  "backup_system_params stats system_node =
     bnd (truthy system_node) (\<lambda>b.
     if \<not> b then ret None
     else
       bnd (backup_stat stats ''simInsts'' 0) (\<lambda>total_insts.
       bnd (write_num system_node ''total_insts'' total_insts) (\<lambda>_.
       bnd (backup_stat stats ''board.processor.cores.core.tickCycles'' 0) (\<lambda>total_cycles.
       bnd (write_num system_node ''total_cycles'' total_cycles) (\<lambda>_.
       bnd (backup_stat stats ''simFreq'' 1000000000000) (\<lambda>clock_rate_hz.
       bnd (lift (py_truediv clock_rate_hz 1000000)) (\<lambda>clock_rate_mhz.
       bnd (write_val system_node ''param'' ''target_core_clockrate''
              [StrOf (PFloat clock_rate_mhz)]) (\<lambda>_.
       ret (Some clock_rate_mhz)))))))))"

text \<open>The block \<open>if core_node:\<close>\<close>

definition backup_core_params :: "raw_table \<Rightarrow> path option \<Rightarrow> pyfloat option \<Rightarrow> unit prog" where
  "backup_core_params stats core_node vars =
     bnd (truthy core_node) (\<lambda>b.
     if \<not> b then ret ()
     else
       bnd (var vars) (\<lambda>clock_rate_mhz.
       bnd (write_val core_node ''param'' ''clock_rate'' [StrOf (PFloat clock_rate_mhz)]) (\<lambda>_.
       bnd (backup_stat stats ''simInsts'' 0) (\<lambda>total_inst.
       bnd (write_num core_node ''total_inst'' total_inst) (\<lambda>_.
       bnd (write_num core_node ''committed_inst'' total_inst) (\<lambda>_.
       bnd (backup_stat stats ''board.cache_hierarchy.l1dcaches.ReadReq.accesses::total'' 0) (\<lambda>load_inst.
       bnd (backup_stat stats ''board.cache_hierarchy.l1dcaches.WriteReq.accesses::total'' 0) (\<lambda>store_inst.
       bnd (write_stat core_node ''int_inst'' stats ''board.processor.cores.core.int_insts'') (\<lambda>_.
       bnd (write_stat core_node ''fp_inst'' stats ''board.processor.cores.core.fp_insts'') (\<lambda>_.
       bnd (write_num core_node ''load_inst'' load_inst) (\<lambda>_.
       bnd (write_num core_node ''store_inst'' store_inst) (\<lambda>_.
       bnd (write_stat core_node ''committed_int_inst'' stats ''board.processor.cores.core.committed_int_insts'') (\<lambda>_.
       bnd (write_stat core_node ''committed_fp_inst'' stats ''board.processor.cores.core.committed_fp_insts'') (\<lambda>_.
       bnd (write_stat core_node ''rob_accesses'' stats ''board.processor.cores.core.rob_accesses'') (\<lambda>_.
       bnd (write_stat core_node ''issue_queue_accesses'' stats ''board.processor.cores.core.issue_queue_accesses'') (\<lambda>_.
       bnd (write_stat core_node ''int_regfile_reads'' stats ''board.processor.cores.core.int_regfile_reads'') (\<lambda>_.
       bnd (write_stat core_node ''fp_regfile_reads'' stats ''board.processor.cores.core.fp_regfile_reads'') (\<lambda>_.
       bnd (write_stat core_node ''int_regfile_writes'' stats ''board.processor.cores.core.int_regfile_writes'') (\<lambda>_.
       bnd (write_stat core_node ''fp_regfile_writes'' stats ''board.processor.cores.core.fp_regfile_writes'') (\<lambda>_.
       bnd (write_stat core_node ''rename_accesses'' stats ''board.processor.cores.core.rename_accesses'') (\<lambda>_.
       bnd (write_stat core_node ''rob_reads'' stats ''board.processor.cores.core.rob_reads'') (\<lambda>_.
       bnd (write_stat core_node ''rob_writes'' stats ''board.processor.cores.core.rob_writes'') (\<lambda>_.
       bnd (write_stat core_node ''L1I_hits'' stats ''board.cache_hierarchy.l1icaches.overallHits::total'') (\<lambda>_.
       bnd (write_stat core_node ''L1I_misses'' stats ''board.cache_hierarchy.l1icaches.overallMisses::total'') (\<lambda>_.
       bnd (write_stat core_node ''L1D_hits'' stats ''board.cache_hierarchy.l1dcaches.overallHits::total'') (\<lambda>_.
       bnd (write_stat core_node ''L1D_misses'' stats ''board.cache_hierarchy.l1dcaches.overallMisses::total'') (\<lambda>_.
       bnd (write_stat core_node ''L2_hits'' stats ''board.cache_hierarchy.l2cache.overallHits::total'') (\<lambda>_.
       bnd (write_stat core_node ''L2_misses'' stats ''board.cache_hierarchy.l2cache.overallMisses::total'') (\<lambda>_.
       bnd (write_stat core_node ''ITLB_accesses'' stats ''board.processor.cores.core.mmu.dtb.accesses'') (\<lambda>_.
       bnd (write_stat core_node ''ITLB_misses'' stats ''board.processor.cores.core.mmu.dtb.misses'') (\<lambda>_.
       bnd (write_stat core_node ''DTLB_accesses'' stats ''board.processor.cores.core.mmu.itb.accesses'') (\<lambda>_.
       bnd (write_stat core_node ''DTLB_misses'' stats ''board.processor.cores.core.mmu.itb.misses'') (\<lambda>_.
       bnd (write_stat core_node ''branch_insts'' stats ''board.processor.cores.core.branchPred.condPredicted'') (\<lambda>_.
       write_stat core_node ''branch_mispredictions'' stats
         ''board.processor.cores.core.branchPred.condIncorrect''))))))))))))))))))))))))))))))))))"

text \<open>
  The lookups at the start of a cache block: \<open>config['board']['cache_hierarchy'][key]\<close>,
  for the two L1 caches followed by \<open>[0]\<close>, then \<open>['size']\<close> and \<open>['assoc']\<close>.
\<close>

definition backup_cache_config :: "pyobj \<Rightarrow> string \<Rightarrow> bool \<Rightarrow> error + pyobj \<times> pyobj" where
  "backup_cache_config config key indexed =
     sbind (py_item config ''board'') (\<lambda>board.
     sbind (py_item board ''cache_hierarchy'') (\<lambda>hierarchy.
     sbind (py_item hierarchy key) (\<lambda>entry.
     sbind (if indexed then py_index entry 0 else Inr entry) (\<lambda>cache_config.
     sbind (py_item cache_config ''size'') (\<lambda>size.
     sbind (py_item cache_config ''assoc'') (\<lambda>assoc.
     Inr (size, assoc)))))))"

text \<open>
  The statements of a cache block after the lookups. \<open>int(size) / 1024\<close> is the true
  division of two ints.
\<close>

definition backup_cache_writes ::
  "raw_table \<Rightarrow> path option \<Rightarrow> string \<Rightarrow> pyobj \<Rightarrow> pyobj \<times> pyobj \<Rightarrow> unit prog" where
  "backup_cache_writes stats node key cache_line_size sa =
     bnd (lift (sbind (py_int (fst sa)) (\<lambda>n. py_int_truediv n 1024))) (\<lambda>kb.
     bnd (write_val node ''param'' ''cache_size'' [StrOf (PFloat kb)]) (\<lambda>_.
     bnd (write_val node ''param'' ''line_size'' [StrOf cache_line_size]) (\<lambda>_.
     bnd (write_val node ''param'' ''associativity'' [StrOf (snd sa)]) (\<lambda>_.
     bnd (backup_stat stats (''board.cache_hierarchy.'' @ key @ ''.overallAccesses::total'') 0) (\<lambda>accesses.
     bnd (backup_stat stats (''board.cache_hierarchy.'' @ key @ ''.ReadReq.accesses::total'') 0) (\<lambda>reads.
     bnd (backup_stat stats (''board.cache_hierarchy.'' @ key @ ''.WriteReq.accesses::total'') 0) (\<lambda>writes.
     bnd (write_num node ''total_accesses'' accesses) (\<lambda>_.
     bnd (write_num node ''total_reads'' reads) (\<lambda>_.
     write_num node ''total_writes'' writes)))))))))"

text \<open>\<open>try: m except KeyError: h\<close>, as the L2 block has it.\<close>

definition try_except_key :: "unit prog \<Rightarrow> unit prog \<Rightarrow> unit prog" where
  "try_except_key m h s =
     (case m s of
        (Inl e, s') \<Rightarrow> if e = KeyError then h s' else (Inl e, s')
      | (Inr x, s') \<Rightarrow> (Inr x, s'))"

definition backup_l1i_warning :: ptext where
  "backup_l1i_warning = [Lit ''Warning: Could not find L1I cache config. Defaulting to 0.'']"

definition backup_l1d_warning :: ptext where
  "backup_l1d_warning = [Lit ''Warning: Could not find L1D cache config. Defaulting to 0.'']"

definition backup_l2_warning :: ptext where
  "backup_l2_warning = [Lit ''Warning: Could not find L2 cache config. Defaulting to 0.'']"

text \<open>The blocks \<open>if l1i_node:\<close>, \<open>if l1d_node:\<close> (both with \<open>indexed\<close>) and \<open>if l2_node:\<close>.\<close>

definition backup_cache_params ::
  "raw_table \<Rightarrow> pyobj \<Rightarrow> pyobj \<Rightarrow> string \<Rightarrow> string \<Rightarrow> bool \<Rightarrow> ptext \<Rightarrow> unit prog" where
  "backup_cache_params stats config cache_line_size name key indexed warning =
     bnd (find root ''component'' name) (\<lambda>node.
     bnd (truthy node) (\<lambda>b.
     if \<not> b then ret ()
     else
       (if indexed then try_except else try_except_key)
         (bnd (lift (backup_cache_config config key indexed)) (\<lambda>sa.
          backup_cache_writes stats node key cache_line_size sa))
         (print warning)))"

text \<open>The block \<open>if mem_node:\<close>\<close>

definition backup_memory_params :: "raw_table \<Rightarrow> unit prog" where
  "backup_memory_params stats =
     bnd (find root ''component'' ''main_memory'') (\<lambda>mem_node.
     bnd (truthy mem_node) (\<lambda>b.
     if \<not> b then ret ()
     else
       bnd (backup_stat stats ''board.memory.mem_ctrl.dram.numReads::total'' 0) (\<lambda>dram_reads.
       bnd (backup_stat stats ''board.cache_hierarchy.l1dcaches.writebacks::total'' 0) (\<lambda>l1d_writebacks.
       bnd (lift (py_add dram_reads l1d_writebacks)) (\<lambda>ext_dram_accesses.
       write_num mem_node ''ext_dram_accesses'' ext_dram_accesses)))))"

definition backup_populate :: "raw_table \<Rightarrow> pyobj \<Rightarrow> unit prog" where
  "backup_populate stats config =
     bnd (lift (cache_line_size_of config)) (\<lambda>cache_line_size.
     bnd (find root ''component'' ''system'') (\<lambda>system_node.
     bnd (backup_system_params stats system_node) (\<lambda>vars.
     bnd (find root ''component'' ''core'') (\<lambda>core_node.
     bnd (backup_core_params stats core_node vars) (\<lambda>_.
     bnd (backup_cache_params stats config cache_line_size ''L1Icache'' ''l1icaches'' True
            backup_l1i_warning) (\<lambda>_.
     bnd (backup_cache_params stats config cache_line_size ''L1Dcache'' ''l1dcaches'' True
            backup_l1d_warning) (\<lambda>_.
     bnd (backup_cache_params stats config cache_line_size ''L2cache'' ''l2cache'' False
            backup_l2_warning) (\<lambda>_.
     backup_memory_params stats))))))))"

text \<open>
  \<open>create_mcpat_xml(stats, config)\<close> of backup.py: the tree whose serialisation is returned,
  or the exception, with the lines printed.
\<close>

definition backup_create_mcpat_xml :: "raw_table \<Rightarrow> pyobj \<Rightarrow> (error + xml) \<times> ptext list" where
  "backup_create_mcpat_xml stats config =
     (case backup_populate stats config (backup_template, []) of
        (Inl e, s) \<Rightarrow> (Inl e, snd s)
      | (Inr u, s) \<Rightarrow> (Inr (fst s), snd s))"

section \<open>Stats parsers\<close>



subsection \<open>\<open>parse_stats\<close> of custom\_converter.py\<close>






subsection \<open>\<open>parse_stats\<close> of backup.py\<close>





section \<open>The drivers (\<open>__main__\<close>)\<close>















section \<open>Assignments keep the shape of the tree\<close>

lemma filter_dict_set:
  "filter (\<lambda>kv. fst kv \<noteq> ''value'') (dict_set ''value'' v a) = filter (\<lambda>kv. fst kv \<noteq> ''value'') a"
  by (induction a) auto

lemma erase_set_val: "erase (set_val p v t) = erase t"
proof (induction p arbitrary: t)
  case Nil
  show ?case by (cases t) (simp add: filter_dict_set)
next
  case (Cons i p)
  show ?case
  proof (cases t)
    case (Elem tg a cs)
    show ?thesis
    proof (cases "i < length cs")
      case True
      have "map erase (cs[i := set_val p v (cs ! i)]) = (map erase cs)[i := erase (set_val p v (cs ! i))]"
        by (simp add: map_update)
      also have "\<dots> = map erase cs"
        using True by (simp add: Cons.IH list_update_same_conv)
      finally show ?thesis using Elem True by simp
    next
      case False
      then show ?thesis using Elem by simp
    qed
  qed
qed

lemma same_shape_set_val: "same_shape t u \<Longrightarrow> same_shape (set_val p v t) u"
  by (simp add: same_shape_def erase_set_val)

lemma same_shape_refl: "same_shape t t"
  by (simp add: same_shape_def)

lemma map_of_filter_other:
  "k \<noteq> ''value'' \<Longrightarrow> map_of (filter (\<lambda>kv. fst kv \<noteq> ''value'') a) k = map_of a k"
  by (induction a) auto

lemma matches_erase:
  "k \<noteq> ''value'' \<Longrightarrow> matches tg k x (erase e) = matches tg k x e"
  by (cases e) (simp add: matches_def map_of_filter_other)

lemma find_erase:
  assumes "k \<noteq> ''value''"
  shows "find_in (matches tg k x) (erase e) = find_in (matches tg k x) e"
    and "find_list (matches tg k x) i (map erase cs) = find_list (matches tg k x) i cs"
proof (induction "matches tg k x" e and "matches tg k x" i cs rule: find_in_find_list.induct)
  case (1 t a cs)
  have "matches tg k x (erase (Elem t a cs)) = matches tg k x (Elem t a cs)"
    using assms by (rule matches_erase)
  then show ?case using 1 by (auto simp: matches_def)
next
  case (2 i)
  show ?case by simp
next
  case (3 i c cs)
  then show ?case by (auto split: option.splits)
qed

lemma find_desc_erase:
  "k \<noteq> ''value'' \<Longrightarrow> find_desc (matches tg k x) (erase t) q = find_desc (matches tg k x) t q"
proof (induction q arbitrary: t)
  case Nil
  then show ?case by (cases t) (simp add: find_erase)
next
  case (Cons i q)
  then show ?case by (cases t) simp
qed

lemma has_children_erase: "has_children (erase t) q = has_children t q"
proof (induction q arbitrary: t)
  case Nil
  show ?case by (cases t) simp
next
  case (Cons i q)
  show ?case
  proof (cases t)
    case (Elem tg a cs)
    show ?thesis
    proof (cases "i < length cs")
      case True
      then have "has_children (erase t) (i # q) = has_children (erase (cs ! i)) q"
        using Elem by simp
      also have "\<dots> = has_children (cs ! i) q" by (rule Cons.IH)
      finally show ?thesis using Elem True by simp
    next
      case False
      then show ?thesis using Elem by simp
    qed
  qed
qed

lemma valid_path_erase: "valid_path (erase t) q = valid_path t q"
proof (induction q arbitrary: t)
  case Nil
  show ?case by (cases t) simp
next
  case (Cons i q)
  show ?case
  proof (cases t)
    case (Elem tg a cs)
    show ?thesis
    proof (cases "i < length cs")
      case True
      then have "valid_path (erase t) (i # q) = valid_path (erase (cs ! i)) q"
        using Elem by simp
      also have "\<dots> = valid_path (cs ! i) q" by (rule Cons.IH)
      finally show ?thesis using Elem True by simp
    next
      case False
      then show ?thesis using Elem by simp
    qed
  qed
qed

lemma same_shape_find:
  "same_shape t u \<Longrightarrow> k \<noteq> ''value'' \<Longrightarrow>
   find_desc (matches tg k x) t q = find_desc (matches tg k x) u q"
  by (metis find_desc_erase same_shape_def)

lemma same_shape_has_children: "same_shape t u \<Longrightarrow> has_children t q = has_children u q"
  by (metis has_children_erase same_shape_def)

lemma same_shape_valid_path: "same_shape t u \<Longrightarrow> valid_path t q = valid_path u q"
  by (metis valid_path_erase same_shape_def)

lemma map_of_dict_set: "map_of (dict_set k v a) k' = (if k' = k then Some v else map_of a k')"
  by (induction a) auto

lemma get_val_set_val:
  "valid_path t q \<Longrightarrow> get_val (set_val q v t) p = (if p = q then Some v else get_val t p)"
proof (induction q arbitrary: t p)
  case Nil
  then show ?case
    by (cases t; cases p) (simp_all add: map_of_dict_set)
next
  case (Cons i q)
  show ?case
  proof (cases t)
    case (Elem tg a cs)
    with Cons.prems have i: "i < length cs" and v: "valid_path (cs ! i) q" by simp_all
    show ?thesis
    proof (cases p)
      case Nil
      then show ?thesis using Elem i by simp
    next
      case (Cons j p')
      then show ?thesis using Elem i Cons.IH[OF v, of p'] by (auto simp: nth_list_update)
    qed
  qed
qed

section \<open>Running programs\<close>

lemma find_desc_set_val:
  "find_desc (matches tg ''name'' x) (set_val p v t) q = find_desc (matches tg ''name'' x) t q"
proof -
  have "find_desc (matches tg ''name'' x) (set_val p v t) q
        = find_desc (matches tg ''name'' x) (erase (set_val p v t)) q"
    by (simp add: find_desc_erase)
  also have "\<dots> = find_desc (matches tg ''name'' x) (erase t) q"
    by (simp only: erase_set_val)
  also have "\<dots> = find_desc (matches tg ''name'' x) t q"
    by (simp add: find_desc_erase)
  finally show ?thesis .
qed

lemma has_children_set_val: "has_children (set_val p v t) q = has_children t q"
  by (metis erase_set_val has_children_erase)

lemma valid_path_set_val: "valid_path (set_val p v t) q = valid_path t q"
  by (metis erase_set_val valid_path_erase)

lemma find_Some:
  "find (Some q) tg x (t, out) = (Inr (find_desc (matches tg ''name'' x) t q), (t, out))"
  by (simp add: find_def)

lemma find_None: "find None tg x s = (Inl AttributeError, s)"
  by (simp add: find_def)

lemma truthy_Some: "truthy (Some q) (t, out) = (Inr (has_children t q), (t, out))"
  by (simp add: truthy_def)

lemma truthy_None: "truthy None s = (Inr False, s)"
  by (simp add: truthy_def)

lemma write_val_Some:
  "find_desc (matches tg ''name'' x) t q = Some p \<Longrightarrow>
   write_val (Some q) tg x v (t, out) = (Inr (), (set_val p v t, out))"
  by (simp add: write_val_def bnd_def find_def)

lemma write_val_None:
  "find_desc (matches tg ''name'' x) t q = None \<Longrightarrow>
   write_val (Some q) tg x v (t, out) = (Inl AttributeError, (t, out))"
  by (simp add: write_val_def bnd_def find_def raise_def)

lemma write_int_Some:
  "find_desc (matches tg ''name'' x) t q = Some p \<Longrightarrow>
   write_int (Some q) tg x fl (t, out) =
     (case py_int_of_float fl of
        Inl e \<Rightarrow> (Inl e, (t, out))
      | Inr n \<Rightarrow> (Inr (), (set_val p [StrOf (PInt n)] t, out)))"
  by (simp add: write_int_def str_int_of_def bnd_def lift_def ret_def write_val_Some split: sum.splits)

lemma float_int_bound_large: "2 ^ 64 < float_int_bound"
proof -
  have "(2::int) ^ 971 \<le> 2 ^ 1024" by (rule power_increasing) simp_all
  moreover have "(2::int) ^ 971 = 2 * 2 ^ 970" by simp
  moreover have "(2::int) ^ 64 < 2 ^ 970" by (rule power_strict_increasing) simp_all
  ultimately show ?thesis by (simp add: float_int_bound_def)
qed

lemma small_defaults:
  "\<bar>0\<bar> < float_int_bound" "\<bar>1000000000\<bar> < float_int_bound" "\<bar>7\<bar> < float_int_bound"
  using float_int_bound_large by simp_all

lemma get_stat_value_int:
  "\<bar>n\<bar> < float_int_bound \<Longrightarrow>
   get_stat_value stats key (PInt n) = (Inr (resolved stats key n), resolve_lines stats key n)"
  by (simp add: get_stat_value_def resolved_def resolve_lines_def float_of_int_def
      split: option.splits)

lemma stat_run_int:
  "\<bar>n\<bar> < float_int_bound \<Longrightarrow>
   stat stats key n (t, out) = (Inr (resolved stats key n), (t, out @ resolve_lines stats key n))"
  by (simp add: stat_def get_stat_value_int)

lemmas stat_run = stat_run_int[OF small_defaults(1)] stat_run_int[OF small_defaults(2)]

lemma bnd_Inr: "m s = (Inr x, s') \<Longrightarrow> bnd m f s = f x s'"
  by (simp add: bnd_def)

lemma bnd_Inl: "m s = (Inl e, s') \<Longrightarrow> bnd m f s = (Inl e, s')"
  by (simp add: bnd_def)

lemma ret_run: "ret x s = (Inr x, s)"
  by (simp add: ret_def)

lemma raise_run: "raise e s = (Inl e, s)"
  by (simp add: raise_def)

lemma lift_run: "lift r s = (r, s)"
  by (simp add: lift_def)

lemma print_run: "print line (t, out) = (Inr (), (t, out @ [line]))"
  by (simp add: print_def)

section \<open>Facts about the template of custom\_converter.py\<close>

lemma cc_find_root_component_system:
  "find_desc (matches ''component'' ''name'' ''system'') mcpat_template [] = Some [0]"
  by code_simp

lemma cc_children_root_system:
  "has_children mcpat_template [0] = True"
  by code_simp

lemma cc_find_system_param_number_of_cores:
  "find_desc (matches ''param'' ''name'' ''number_of_cores'') mcpat_template [0] = Some [0, 0]"
  by code_simp

lemma cc_val_system_param_number_of_cores:
  "get_val mcpat_template [0, 0] = Some [Lit ''1'']"
  by code_simp

lemma cc_valid_system_param_number_of_cores:
  "valid_path mcpat_template [0, 0]"
  by code_simp

lemma cc_find_system_stat_total_cycles:
  "find_desc (matches ''stat'' ''name'' ''total_cycles'') mcpat_template [0] = Some [0, 26]"
  by code_simp

lemma cc_val_system_stat_total_cycles:
  "get_val mcpat_template [0, 26] = Some [Lit ''100000'']"
  by code_simp

lemma cc_valid_system_stat_total_cycles:
  "valid_path mcpat_template [0, 26]"
  by code_simp

lemma cc_find_system_stat_idle_cycles:
  "find_desc (matches ''stat'' ''name'' ''idle_cycles'') mcpat_template [0] = Some [0, 27]"
  by code_simp

lemma cc_val_system_stat_idle_cycles:
  "get_val mcpat_template [0, 27] = Some [Lit ''0'']"
  by code_simp

lemma cc_valid_system_stat_idle_cycles:
  "valid_path mcpat_template [0, 27]"
  by code_simp

lemma cc_find_system_stat_busy_cycles:
  "find_desc (matches ''stat'' ''name'' ''busy_cycles'') mcpat_template [0] = Some [0, 28]"
  by code_simp

lemma cc_val_system_stat_busy_cycles:
  "get_val mcpat_template [0, 28] = Some [Lit ''100000'']"
  by code_simp

lemma cc_valid_system_stat_busy_cycles:
  "valid_path mcpat_template [0, 28]"
  by code_simp

lemma cc_find_system_param_target_core_clockrate:
  "find_desc (matches ''param'' ''name'' ''target_core_clockrate'') mcpat_template [0] = Some [0, 14]"
  by code_simp

lemma cc_val_system_param_target_core_clockrate:
  "get_val mcpat_template [0, 14] = Some [Lit ''1000.0'']"
  by code_simp

lemma cc_valid_system_param_target_core_clockrate:
  "valid_path mcpat_template [0, 14]"
  by code_simp

lemma cc_find_system_param_number_of_L2s:
  "find_desc (matches ''param'' ''name'' ''number_of_L2s'') mcpat_template [0] = Some [0, 3]"
  by code_simp

lemma cc_val_system_param_number_of_L2s:
  "get_val mcpat_template [0, 3] = Some [Lit ''1'']"
  by code_simp

lemma cc_valid_system_param_number_of_L2s:
  "valid_path mcpat_template [0, 3]"
  by code_simp

lemma cc_find_root_component_core0:
  "find_desc (matches ''component'' ''name'' ''core0'') mcpat_template [] = Some [0, 29]"
  by code_simp

lemma cc_children_root_core0:
  "has_children mcpat_template [0, 29] = True"
  by code_simp

lemma cc_find_core0_param_clock_rate:
  "find_desc (matches ''param'' ''name'' ''clock_rate'') mcpat_template [0, 29] = Some [0, 29, 0]"
  by code_simp

lemma cc_val_core0_param_clock_rate:
  "get_val mcpat_template [0, 29, 0] = Some [Lit ''1000.0'']"
  by code_simp

lemma cc_valid_core0_param_clock_rate:
  "valid_path mcpat_template [0, 29, 0]"
  by code_simp

lemma cc_find_core0_stat_total_instructions:
  "find_desc (matches ''stat'' ''name'' ''total_instructions'') mcpat_template [0, 29] = Some [0, 29, 39]"
  by code_simp

lemma cc_val_core0_stat_total_instructions:
  "get_val mcpat_template [0, 29, 39] = Some [Lit ''400000'']"
  by code_simp

lemma cc_valid_core0_stat_total_instructions:
  "valid_path mcpat_template [0, 29, 39]"
  by code_simp

lemma cc_find_core0_stat_int_instructions:
  "find_desc (matches ''stat'' ''name'' ''int_instructions'') mcpat_template [0, 29] = Some [0, 29, 40]"
  by code_simp

lemma cc_val_core0_stat_int_instructions:
  "get_val mcpat_template [0, 29, 40] = Some [Lit ''200000'']"
  by code_simp

lemma cc_valid_core0_stat_int_instructions:
  "valid_path mcpat_template [0, 29, 40]"
  by code_simp

lemma cc_find_core0_stat_fp_instructions:
  "find_desc (matches ''stat'' ''name'' ''fp_instructions'') mcpat_template [0, 29] = Some [0, 29, 41]"
  by code_simp

lemma cc_val_core0_stat_fp_instructions:
  "get_val mcpat_template [0, 29, 41] = Some [Lit ''100000'']"
  by code_simp

lemma cc_valid_core0_stat_fp_instructions:
  "valid_path mcpat_template [0, 29, 41]"
  by code_simp

lemma cc_find_core0_stat_branch_instructions:
  "find_desc (matches ''stat'' ''name'' ''branch_instructions'') mcpat_template [0, 29] = Some [0, 29, 42]"
  by code_simp

lemma cc_val_core0_stat_branch_instructions:
  "get_val mcpat_template [0, 29, 42] = Some [Lit ''100000'']"
  by code_simp

lemma cc_valid_core0_stat_branch_instructions:
  "valid_path mcpat_template [0, 29, 42]"
  by code_simp

lemma cc_find_core0_stat_branch_mispredictions:
  "find_desc (matches ''stat'' ''name'' ''branch_mispredictions'') mcpat_template [0, 29] = Some [0, 29, 43]"
  by code_simp

lemma cc_val_core0_stat_branch_mispredictions:
  "get_val mcpat_template [0, 29, 43] = Some [Lit ''0'']"
  by code_simp

lemma cc_valid_core0_stat_branch_mispredictions:
  "valid_path mcpat_template [0, 29, 43]"
  by code_simp

lemma cc_find_core0_stat_load_instructions:
  "find_desc (matches ''stat'' ''name'' ''load_instructions'') mcpat_template [0, 29] = Some [0, 29, 44]"
  by code_simp

lemma cc_val_core0_stat_load_instructions:
  "get_val mcpat_template [0, 29, 44] = Some [Lit ''0'']"
  by code_simp

lemma cc_valid_core0_stat_load_instructions:
  "valid_path mcpat_template [0, 29, 44]"
  by code_simp

lemma cc_find_core0_stat_store_instructions:
  "find_desc (matches ''stat'' ''name'' ''store_instructions'') mcpat_template [0, 29] = Some [0, 29, 45]"
  by code_simp

lemma cc_val_core0_stat_store_instructions:
  "get_val mcpat_template [0, 29, 45] = Some [Lit ''50000'']"
  by code_simp

lemma cc_valid_core0_stat_store_instructions:
  "valid_path mcpat_template [0, 29, 45]"
  by code_simp

lemma cc_find_core0_stat_committed_instructions:
  "find_desc (matches ''stat'' ''name'' ''committed_instructions'') mcpat_template [0, 29] = Some [0, 29, 46]"
  by code_simp

lemma cc_val_core0_stat_committed_instructions:
  "get_val mcpat_template [0, 29, 46] = Some [Lit ''400000'']"
  by code_simp

lemma cc_valid_core0_stat_committed_instructions:
  "valid_path mcpat_template [0, 29, 46]"
  by code_simp

lemma cc_find_core0_stat_committed_int_instructions:
  "find_desc (matches ''stat'' ''name'' ''committed_int_instructions'') mcpat_template [0, 29] = Some [0, 29, 47]"
  by code_simp

lemma cc_val_core0_stat_committed_int_instructions:
  "get_val mcpat_template [0, 29, 47] = Some [Lit ''200000'']"
  by code_simp

lemma cc_valid_core0_stat_committed_int_instructions:
  "valid_path mcpat_template [0, 29, 47]"
  by code_simp

lemma cc_find_core0_stat_committed_fp_instructions:
  "find_desc (matches ''stat'' ''name'' ''committed_fp_instructions'') mcpat_template [0, 29] = Some [0, 29, 48]"
  by code_simp

lemma cc_val_core0_stat_committed_fp_instructions:
  "get_val mcpat_template [0, 29, 48] = Some [Lit ''100000'']"
  by code_simp

lemma cc_valid_core0_stat_committed_fp_instructions:
  "valid_path mcpat_template [0, 29, 48]"
  by code_simp

lemma cc_find_core0_stat_total_cycles:
  "find_desc (matches ''stat'' ''name'' ''total_cycles'') mcpat_template [0, 29] = Some [0, 29, 50]"
  by code_simp

lemma cc_val_core0_stat_total_cycles:
  "get_val mcpat_template [0, 29, 50] = Some [Lit ''100000'']"
  by code_simp

lemma cc_valid_core0_stat_total_cycles:
  "valid_path mcpat_template [0, 29, 50]"
  by code_simp

lemma cc_find_core0_stat_idle_cycles:
  "find_desc (matches ''stat'' ''name'' ''idle_cycles'') mcpat_template [0, 29] = Some [0, 29, 51]"
  by code_simp

lemma cc_val_core0_stat_idle_cycles:
  "get_val mcpat_template [0, 29, 51] = Some [Lit ''0'']"
  by code_simp

lemma cc_valid_core0_stat_idle_cycles:
  "valid_path mcpat_template [0, 29, 51]"
  by code_simp

lemma cc_find_core0_stat_busy_cycles:
  "find_desc (matches ''stat'' ''name'' ''busy_cycles'') mcpat_template [0, 29] = Some [0, 29, 52]"
  by code_simp

lemma cc_val_core0_stat_busy_cycles:
  "get_val mcpat_template [0, 29, 52] = Some [Lit ''100000'']"
  by code_simp

lemma cc_valid_core0_stat_busy_cycles:
  "valid_path mcpat_template [0, 29, 52]"
  by code_simp

lemma cc_find_core0_component_icache:
  "find_desc (matches ''component'' ''name'' ''icache'') mcpat_template [0, 29] = Some [0, 29, 91]"
  by code_simp

lemma cc_find_core0_component_dcache:
  "find_desc (matches ''component'' ''name'' ''dcache'') mcpat_template [0, 29] = Some [0, 29, 93]"
  by code_simp

lemma cc_children_core0_icache:
  "has_children mcpat_template [0, 29, 91] = True"
  by code_simp

lemma cc_children_core0_dcache:
  "has_children mcpat_template [0, 29, 93] = True"
  by code_simp

lemma cc_find_core0_icache_param_icache_config:
  "find_desc (matches ''param'' ''name'' ''icache_config'') mcpat_template [0, 29, 91] = Some [0, 29, 91, 0]"
  by code_simp

lemma cc_val_core0_icache_param_icache_config:
  "get_val mcpat_template [0, 29, 91, 0] = Some [Lit ''32768,64,8,1,10,10,64,0'']"
  by code_simp

lemma cc_valid_core0_icache_param_icache_config:
  "valid_path mcpat_template [0, 29, 91, 0]"
  by code_simp

lemma cc_find_core0_dcache_param_dcache_config:
  "find_desc (matches ''param'' ''name'' ''dcache_config'') mcpat_template [0, 29, 93] = Some [0, 29, 93, 0]"
  by code_simp

lemma cc_val_core0_dcache_param_dcache_config:
  "get_val mcpat_template [0, 29, 93, 0] = Some [Lit ''32768,64,8,1,10,10,64,1'']"
  by code_simp

lemma cc_valid_core0_dcache_param_dcache_config:
  "valid_path mcpat_template [0, 29, 93, 0]"
  by code_simp

lemma cc_find_root_component_L20:
  "find_desc (matches ''component'' ''name'' ''L20'') mcpat_template [] = Some [0, 30]"
  by code_simp

lemma cc_children_root_L20:
  "has_children mcpat_template [0, 30] = True"
  by code_simp

lemma cc_find_L20_stat_read_accesses:
  "find_desc (matches ''stat'' ''name'' ''read_accesses'') mcpat_template [0, 30] = Some [0, 30, 5]"
  by code_simp

lemma cc_val_L20_stat_read_accesses:
  "get_val mcpat_template [0, 30, 5] = Some [Lit ''200000'']"
  by code_simp

lemma cc_valid_L20_stat_read_accesses:
  "valid_path mcpat_template [0, 30, 5]"
  by code_simp

lemma cc_find_L20_stat_write_accesses:
  "find_desc (matches ''stat'' ''name'' ''write_accesses'') mcpat_template [0, 30] = Some [0, 30, 6]"
  by code_simp

lemma cc_val_L20_stat_write_accesses:
  "get_val mcpat_template [0, 30, 6] = Some [Lit ''27276'']"
  by code_simp

lemma cc_valid_L20_stat_write_accesses:
  "valid_path mcpat_template [0, 30, 6]"
  by code_simp

lemmas cc_facts =
  cc_find_root_component_system
  cc_children_root_system
  cc_find_system_param_number_of_cores
  cc_val_system_param_number_of_cores
  cc_valid_system_param_number_of_cores
  cc_find_system_stat_total_cycles
  cc_val_system_stat_total_cycles
  cc_valid_system_stat_total_cycles
  cc_find_system_stat_idle_cycles
  cc_val_system_stat_idle_cycles
  cc_valid_system_stat_idle_cycles
  cc_find_system_stat_busy_cycles
  cc_val_system_stat_busy_cycles
  cc_valid_system_stat_busy_cycles
  cc_find_system_param_target_core_clockrate
  cc_val_system_param_target_core_clockrate
  cc_valid_system_param_target_core_clockrate
  cc_find_system_param_number_of_L2s
  cc_val_system_param_number_of_L2s
  cc_valid_system_param_number_of_L2s
  cc_find_root_component_core0
  cc_children_root_core0
  cc_find_core0_param_clock_rate
  cc_val_core0_param_clock_rate
  cc_valid_core0_param_clock_rate
  cc_find_core0_stat_total_instructions
  cc_val_core0_stat_total_instructions
  cc_valid_core0_stat_total_instructions
  cc_find_core0_stat_int_instructions
  cc_val_core0_stat_int_instructions
  cc_valid_core0_stat_int_instructions
  cc_find_core0_stat_fp_instructions
  cc_val_core0_stat_fp_instructions
  cc_valid_core0_stat_fp_instructions
  cc_find_core0_stat_branch_instructions
  cc_val_core0_stat_branch_instructions
  cc_valid_core0_stat_branch_instructions
  cc_find_core0_stat_branch_mispredictions
  cc_val_core0_stat_branch_mispredictions
  cc_valid_core0_stat_branch_mispredictions
  cc_find_core0_stat_load_instructions
  cc_val_core0_stat_load_instructions
  cc_valid_core0_stat_load_instructions
  cc_find_core0_stat_store_instructions
  cc_val_core0_stat_store_instructions
  cc_valid_core0_stat_store_instructions
  cc_find_core0_stat_committed_instructions
  cc_val_core0_stat_committed_instructions
  cc_valid_core0_stat_committed_instructions
  cc_find_core0_stat_committed_int_instructions
  cc_val_core0_stat_committed_int_instructions
  cc_valid_core0_stat_committed_int_instructions
  cc_find_core0_stat_committed_fp_instructions
  cc_val_core0_stat_committed_fp_instructions
  cc_valid_core0_stat_committed_fp_instructions
  cc_find_core0_stat_total_cycles
  cc_val_core0_stat_total_cycles
  cc_valid_core0_stat_total_cycles
  cc_find_core0_stat_idle_cycles
  cc_val_core0_stat_idle_cycles
  cc_valid_core0_stat_idle_cycles
  cc_find_core0_stat_busy_cycles
  cc_val_core0_stat_busy_cycles
  cc_valid_core0_stat_busy_cycles
  cc_find_core0_component_icache
  cc_find_core0_component_dcache
  cc_children_core0_icache
  cc_children_core0_dcache
  cc_find_core0_icache_param_icache_config
  cc_val_core0_icache_param_icache_config
  cc_valid_core0_icache_param_icache_config
  cc_find_core0_dcache_param_dcache_config
  cc_val_core0_dcache_param_dcache_config
  cc_valid_core0_dcache_param_dcache_config
  cc_find_root_component_L20
  cc_children_root_L20
  cc_find_L20_stat_read_accesses
  cc_val_L20_stat_read_accesses
  cc_valid_L20_stat_read_accesses
  cc_find_L20_stat_write_accesses
  cc_val_L20_stat_write_accesses
  cc_valid_L20_stat_write_accesses

section \<open>The loop over the cores\<close>

lemma find_None_nodes:
  "(\<forall>d \<in> set (nodes e). \<not> P d) \<Longrightarrow> find_in P e = None"
  "(\<forall>c \<in> set cs. \<forall>d \<in> set (nodes c). \<not> P d) \<Longrightarrow> find_list P i cs = None"
proof (induction P e and P i cs rule: find_in_find_list.induct)
  case (1 P t a cs)
  then show ?case by auto
next
  case (2 P i)
  show ?case by simp
next
  case (3 P i c cs)
  then show ?case by auto
qed

lemma find_desc_root_None:
  "(\<forall>d \<in> set (concat (map nodes (children t))). \<not> P d) \<Longrightarrow> find_desc P t [] = None"
  by (cases t) (auto intro: find_None_nodes(2))

lemma cc_component_names:
  "map (\<lambda>d. map_of (attrib d) ''name'')
     (filter (\<lambda>d. tag d = ''component'') (concat (map nodes (children mcpat_template))))
   = [Some [Lit ''system''], Some [Lit ''core0''], Some [Lit ''PBT''], Some [Lit ''itlb''],
      Some [Lit ''icache''], Some [Lit ''dtlb''], Some [Lit ''dcache''], Some [Lit ''BTB''],
      Some [Lit ''L20''], Some [Lit ''mc'']]"
  by code_simp

lemma cc_no_component:
  assumes "x \<notin> set [''system'', ''core0'', ''PBT'', ''itlb'', ''icache'', ''dtlb'', ''dcache'',
                      ''BTB'', ''L20'', ''mc'']"
  shows "find_desc (matches ''component'' ''name'' x) mcpat_template [] = None"
proof (rule find_desc_root_None, rule ballI)
  fix d assume d: "d \<in> set (concat (map nodes (children mcpat_template)))"
  show "\<not> matches ''component'' ''name'' x d"
  proof
    assume m: "matches ''component'' ''name'' x d"
    then have "d \<in> set (filter (\<lambda>d. tag d = ''component'') (concat (map nodes (children mcpat_template))))"
      using d by (simp add: matches_def)
    then have "map_of (attrib d) ''name'' \<in> set (map (\<lambda>d. map_of (attrib d) ''name'')
        (filter (\<lambda>d. tag d = ''component'') (concat (map nodes (children mcpat_template)))))"
      unfolding set_map by (rule imageI)
    then have "Some [Lit x] \<in> set [Some [Lit ''system''], Some [Lit ''core0''], Some [Lit ''PBT''],
      Some [Lit ''itlb''], Some [Lit ''icache''], Some [Lit ''dtlb''], Some [Lit ''dcache''],
      Some [Lit ''BTB''], Some [Lit ''L20''], Some [Lit ''mc'']]"
      using m by (simp only: cc_component_names matches_def)
    then show False using assms by simp
  qed
qed

lemma digit_char_zero: "d < 10 \<Longrightarrow> digit_char d = CHR ''0'' \<longleftrightarrow> d = 0"
proof -
  assume d: "d < 10"
  have "digit_char d = CHR ''0'' \<longleftrightarrow> of_char (digit_char d) = (of_char (CHR ''0'') :: nat)"
    by (simp only: of_char_eq_iff)
  also have "\<dots> \<longleftrightarrow> d = 0"
    using d by (simp add: digit_char_def)
  finally show ?thesis .
qed

lemma digit_char_0: "digit_char 0 = CHR ''0''"
  by (simp add: digit_char_zero)

lemma str_nat_0: "str_nat 0 = ''0''"
  by (subst str_nat.simps) (simp add: digit_char_0)

lemma str_nat_nonempty: "str_nat n \<noteq> []"
  by (subst str_nat.simps) simp

lemma str_nat_eq_zero: "str_nat i = ''0'' \<longleftrightarrow> i = 0"
proof (cases "i < 10")
  case True
  then show ?thesis
    by (subst str_nat.simps) (simp add: digit_char_zero)
next
  case False
  have "str_nat i = str_nat (i div 10) @ [digit_char (i mod 10)]"
    using False by (subst str_nat.simps) simp
  moreover have "str_nat (i div 10) \<noteq> []" by (rule str_nat_nonempty)
  ultimately have "length (str_nat i) \<ge> 2"
    by (cases "str_nat (i div 10)") simp_all
  then have "str_nat i \<noteq> ''0''" by auto
  then show ?thesis using False by auto
qed

lemma cc_find_core_other:
  "0 < i \<Longrightarrow> find_desc (matches ''component'' ''name'' (''core'' @ str_nat i)) mcpat_template [] = None"
  by (rule cc_no_component) (simp add: str_nat_eq_zero)


lemma cc_find_L2_0:
  "find_desc (matches ''component'' ''name'' (''L2'' @ str_nat 0)) mcpat_template [] = Some [0, 30]"
  by (simp only: str_nat_0 append.simps cc_find_root_component_L20)

lemma cc_find_core_0:
  "find_desc (matches ''component'' ''name'' (''core'' @ str_nat 0)) mcpat_template [] = Some [0, 29]"
  by (simp only: str_nat_0 append.simps cc_find_root_component_core0)

lemma core_params_other:
  assumes sh: "same_shape t mcpat_template" and i: "0 < i"
  shows "core_params stats config cls vars i (t, out) = (Inr (), (t, out))"
proof -
  have "find_desc (matches ''component'' ''name'' (''core'' @ str_nat i)) t []
        = find_desc (matches ''component'' ''name'' (''core'' @ str_nat i)) mcpat_template []"
    using sh by (rule same_shape_find) simp
  also have "\<dots> = None" using i by (rule cc_find_core_other)
  finally have "find root ''component'' (''core'' @ str_nat i) (t, out) = (Inr None, (t, out))"
    by (simp only: root_def find_Some)
  then show ?thesis
    unfolding core_params_def
    by (simp only: bnd_Inr truthy_None) (simp add: ret_def)
qed

lemma for_each_noop:
  "(\<forall>i \<in> set xs. body i s = (Inr (), s)) \<Longrightarrow> for_each xs body s = (Inr (), s)"
  by (induction xs) (simp_all add: ret_def bnd_def)

lemma core_loop_rest:
  assumes "same_shape t mcpat_template"
  shows "for_each [Suc 0..<n] (core_params stats config cls vars) (t, out) = (Inr (), (t, out))"
  by (rule for_each_noop) (simp add: core_params_other[OF assms])

section \<open>The blocks of \<open>create_mcpat_xml\<close> (custom\_converter.py)\<close>

lemma py_int_of_float_eq:
  "py_int_of_float x =
     (if finite_float x then Inr (int_of x)
      else Inl (if x = NaN then ValueError else OverflowError))"
  by (cases x) (simp_all add: int_of_def)

lemma bnd_find:
  "bnd (find (Some q) tg x) f (t, out) = f (find_desc (matches tg ''name'' x) t q) (t, out)"
  by (simp add: bnd_def find_Some)

lemma bnd_truthy_Some:
  "bnd (truthy (Some q)) f (t, out) = f (has_children t q) (t, out)"
  by (simp add: bnd_def truthy_Some)

lemma bnd_truthy_None: "bnd (truthy None) f s = f False s"
  by (simp add: bnd_def truthy_None)

lemma bnd_stat_int:
  "\<bar>n\<bar> < float_int_bound \<Longrightarrow>
   bnd (stat stats key n) f (t, out) = f (resolved stats key n) (t, out @ resolve_lines stats key n)"
  by (simp add: bnd_def stat_run_int)

lemmas bnd_stat = bnd_stat_int[OF small_defaults(1)] bnd_stat_int[OF small_defaults(2)]

lemma bnd_write_val:
  "find_desc (matches tg ''name'' x) t q = Some p \<Longrightarrow>
   bnd (write_val (Some q) tg x v) f (t, out) = f () (set_val p v t, out)"
  by (simp add: bnd_def write_val_Some)

lemma bnd_write_int:
  "find_desc (matches tg ''name'' x) t q = Some p \<Longrightarrow>
   bnd (write_int (Some q) tg x fl) f (t, out) =
     (if finite_float fl then f () (set_val p (int_text fl) t, out)
      else (Inl (if fl = NaN then ValueError else OverflowError), (t, out)))"
  by (simp add: bnd_def write_int_Some py_int_of_float_eq int_text_def)

lemma write_int_run:
  "find_desc (matches tg ''name'' x) t q = Some p \<Longrightarrow>
   write_int (Some q) tg x fl (t, out) =
     (if finite_float fl then (Inr (), (set_val p (int_text fl) t, out))
      else (Inl (if fl = NaN then ValueError else OverflowError), (t, out)))"
  by (simp add: write_int_Some py_int_of_float_eq int_text_def)

lemma bnd_ret: "bnd (ret x) f s = f x s"
  by (simp add: bnd_def ret_def)

lemma bnd_raise: "bnd (raise e) f s = (Inl e, s)"
  by (simp add: bnd_def raise_def)

lemma bnd_lift_Inr: "bnd (lift (Inr x)) f s = f x s"
  by (simp add: bnd_def lift_def)

lemma bnd_lift_Inl: "bnd (lift (Inl e)) f s = (Inl e, s)"
  by (simp add: bnd_def lift_def)

lemma l1_cache_params_run:
  assumes "has_children t q"
    and "find_desc (matches ''param'' ''name'' pn) t q = Some p"
  shows "l1_cache_params (Some q) pn config key i cls flag w (t, out) =
     (if l1_recovers (l1_config_text config key i cls flag)
      then (Inr (), (l1_tree (l1_config_text config key i cls flag) p t,
                     out @ l1_warnings (l1_config_text config key i cls flag) w))
      else (Inl (case l1_config_text config key i cls flag of Inl e \<Rightarrow> e | Inr v \<Rightarrow> KeyError),
            (t, out)))"
proof (cases "l1_config_text config key i cls flag")
  case (Inl e)
  then show ?thesis
    using assms
    by (simp add: l1_cache_params_def bnd_truthy_Some try_except_def bnd_lift_Inl print_run
        l1_recovers_def l1_tree_def l1_warnings_def)
next
  case (Inr v)
  then show ?thesis
    using assms
    by (simp add: l1_cache_params_def bnd_truthy_Some try_except_def bnd_lift_Inr write_val_Some
        l1_recovers_def l1_tree_def l1_warnings_def)
qed

lemma system_params_success:
  assumes sh: "same_shape t mcpat_template"
  shows "system_params stats n (Some [0]) (t, out) =
     (if finite_float (total_cycles_of stats)
      then (Inr (Some (total_cycles_of stats, clock_rate_mhz_of stats)),
            (system_tree stats n t, out @ system_warnings stats))
      else (Inl (if total_cycles_of stats = NaN then ValueError else OverflowError),
            (set_val [0, 0] [StrOf (PInt (int n))] t, out @ resolve_lines stats ''total_cycles'' 0)))"
proof -
  have F: "\<And>tg x q. find_desc (matches tg ''name'' x) t q = find_desc (matches tg ''name'' x) mcpat_template q"
    using sh by (simp add: same_shape_find)
  have H: "\<And>q. has_children t q = has_children mcpat_template q"
    using sh by (simp add: same_shape_has_children)
  show ?thesis
    unfolding system_params_def system_tree_def system_warnings_def total_cycles_of_def
      clock_rate_mhz_of_def stat0_def
    by (simp add: bnd_truthy_Some bnd_stat bnd_write_val bnd_write_int H F cc_facts
        find_desc_set_val ret_def)
qed

lemma core_params_0_ok:
  assumes sh: "same_shape t mcpat_template"
    and fin: "list_all finite_float (tc # core0_floats stats)"
  shows "core_params stats config cls (Some (tc, mhz)) 0 (t, out) =
     bnd (l1_cache_params (Some [0, 29, 91]) ''icache_config'' config ''l1icaches'' 0 cls ''0'' l1i_warning)
       (\<lambda>_. l1_cache_params (Some [0, 29, 93]) ''dcache_config'' config ''l1dcaches'' 0 cls ''1'' l1d_warning)
       (core0_tree stats tc mhz t, out @ core0_warnings stats)"
proof -
  have F: "\<And>tg x q. find_desc (matches tg ''name'' x) t q = find_desc (matches tg ''name'' x) mcpat_template q"
    using sh by (simp add: same_shape_find)
  have H: "\<And>q. has_children t q = has_children mcpat_template q"
    using sh by (simp add: same_shape_has_children)
  show ?thesis
    using fin
    unfolding core_params_def core0_tree_def core0_warnings_def core0_floats_def stat0_def root_def
    by (simp add: bnd_find bnd_truthy_Some bnd_stat bnd_write_val bnd_write_int H F cc_facts
        find_desc_set_val bnd_ret var_def str_nat_0)
qed

lemma core_params_0_fail:
  assumes sh: "same_shape t mcpat_template"
    and fin: "\<not> list_all finite_float (tc # core0_floats stats)"
  shows "isl (fst (core_params stats config cls (Some (tc, mhz)) 0 (t, out)))"
proof -
  have F: "\<And>tg x q. find_desc (matches tg ''name'' x) t q = find_desc (matches tg ''name'' x) mcpat_template q"
    using sh by (simp add: same_shape_find)
  have H: "\<And>q. has_children t q = has_children mcpat_template q"
    using sh by (simp add: same_shape_has_children)
  show ?thesis
    using fin
    unfolding core_params_def core0_floats_def stat0_def root_def
    by (auto simp: bnd_find bnd_truthy_Some bnd_stat bnd_write_val bnd_write_int H F cc_facts
        find_desc_set_val bnd_ret var_def str_nat_0)
qed

section \<open>The loops of \<open>create_mcpat_xml\<close> (custom\_converter.py)\<close>

lemma same_shape_system_tree:
  "same_shape t u \<Longrightarrow> same_shape (system_tree stats n t) u"
  by (simp add: system_tree_def same_shape_set_val)

lemma same_shape_core0_tree:
  "same_shape t u \<Longrightarrow> same_shape (core0_tree stats tc mhz t) u"
  by (simp add: core0_tree_def same_shape_set_val)

lemma same_shape_l1_tree:
  "same_shape t u \<Longrightarrow> same_shape (l1_tree r p t) u"
  by (cases r) (simp_all add: l1_tree_def same_shape_set_val)

lemma same_shape_cores_tree:
  "same_shape t u \<Longrightarrow> same_shape (cores_tree stats config cls n t) u"
  by (simp add: cores_tree_def same_shape_l1_tree same_shape_core0_tree)

lemma same_shape_l2_tree:
  "same_shape t u \<Longrightarrow> same_shape (l2_tree stats t) u"
  by (simp add: l2_tree_def same_shape_set_val)

lemma l2_params_0_ok:
  assumes sh: "same_shape t mcpat_template"
    and fin: "list_all finite_float (l2_floats stats)"
  shows "l2_params stats 0 (t, out) = (Inr (), (l2_tree stats t, out @ l2_warnings stats))"
proof -
  have F: "\<And>tg x q. find_desc (matches tg ''name'' x) t q = find_desc (matches tg ''name'' x) mcpat_template q"
    using sh by (simp add: same_shape_find)
  have H: "\<And>q. has_children t q = has_children mcpat_template q"
    using sh by (simp add: same_shape_has_children)
  show ?thesis
    using fin
    unfolding l2_params_def l2_tree_def l2_warnings_def l2_floats_def stat0_def root_def
    by (simp add: bnd_find bnd_truthy_Some bnd_stat bnd_write_int write_int_run H F cc_facts
        find_desc_set_val str_nat_0)
qed

lemma l2_params_0_fail:
  assumes sh: "same_shape t mcpat_template"
    and fin: "\<not> list_all finite_float (l2_floats stats)"
  shows "isl (fst (l2_params stats 0 (t, out)))"
proof -
  have F: "\<And>tg x q. find_desc (matches tg ''name'' x) t q = find_desc (matches tg ''name'' x) mcpat_template q"
    using sh by (simp add: same_shape_find)
  have H: "\<And>q. has_children t q = has_children mcpat_template q"
    using sh by (simp add: same_shape_has_children)
  show ?thesis
    using fin
    unfolding l2_params_def l2_floats_def stat0_def root_def
    by (auto simp: bnd_find bnd_truthy_Some bnd_stat bnd_write_int write_int_run H F cc_facts
        find_desc_set_val str_nat_0)
qed

text \<open>The core loop on a tree of the template's shape.\<close>

lemma core_loop_ok:
  assumes sh: "same_shape t mcpat_template"
    and fin: "finite_float (total_cycles_of stats)"
    and ok: "cores_ok stats config cls n"
  shows "for_each [0..<n]
           (core_params stats config cls (Some (total_cycles_of stats, clock_rate_mhz_of stats)))
           (t, out)
         = (Inr (), (cores_tree stats config cls n t, out @ cores_warnings stats config cls n))"
proof (cases "n = 0")
  case True
  then show ?thesis by (simp add: cores_tree_def cores_warnings_def ret_def)
next
  case False
  let ?tc = "total_cycles_of stats" and ?mhz = "clock_rate_mhz_of stats"
  let ?t1 = "core0_tree stats ?tc ?mhz t"
  let ?ri = "l1i_result config cls" and ?rd = "l1d_result config cls"
  let ?t2 = "l1_tree ?ri [0, 29, 91, 0] ?t1"
  let ?t3 = "l1_tree ?rd [0, 29, 93, 0] ?t2"
  from False ok have fl: "list_all finite_float (core0_floats stats)"
    and ri: "l1_recovers ?ri" and rd: "l1_recovers ?rd"
    by (simp_all add: cores_ok_def)
  have sh1: "same_shape ?t1 mcpat_template" using sh by (rule same_shape_core0_tree)
  have sh2: "same_shape ?t2 mcpat_template" using sh1 by (rule same_shape_l1_tree)
  have sh3: "same_shape ?t3 mcpat_template" using sh2 by (rule same_shape_l1_tree)
  have i1: "l1_cache_params (Some [0, 29, 91]) ''icache_config'' config ''l1icaches'' 0 cls ''0''
              l1i_warning (?t1, out @ core0_warnings stats)
            = (Inr (), (?t2, out @ core0_warnings stats @ l1_warnings ?ri l1i_warning))"
    using ri
    by (subst l1_cache_params_run[where p="[0, 29, 91, 0]"])
       (simp_all add: same_shape_has_children[OF sh1] same_shape_find[OF sh1] cc_facts l1i_result_def)
  have i2: "l1_cache_params (Some [0, 29, 93]) ''dcache_config'' config ''l1dcaches'' 0 cls ''1''
              l1d_warning (?t2, out @ core0_warnings stats @ l1_warnings ?ri l1i_warning)
            = (Inr (), (?t3, out @ core0_warnings stats @ l1_warnings ?ri l1i_warning
                              @ l1_warnings ?rd l1d_warning))"
    using rd
    by (subst l1_cache_params_run[where p="[0, 29, 93, 0]"])
       (simp_all add: same_shape_has_children[OF sh2] same_shape_find[OF sh2] cc_facts l1d_result_def)
  have c0: "core_params stats config cls (Some (?tc, ?mhz)) 0 (t, out)
            = (Inr (), (?t3, out @ core0_warnings stats @ l1_warnings ?ri l1i_warning
                              @ l1_warnings ?rd l1d_warning))"
    using fin fl
    by (subst core_params_0_ok[OF sh]) (simp_all add: bnd_def i1 i2)
  have rest: "for_each [Suc 0..<n] (core_params stats config cls (Some (?tc, ?mhz)))
                (?t3, out @ core0_warnings stats @ l1_warnings ?ri l1i_warning
                       @ l1_warnings ?rd l1d_warning)
              = (Inr (), (?t3, out @ core0_warnings stats @ l1_warnings ?ri l1i_warning
                                @ l1_warnings ?rd l1d_warning))"
    using sh3 by (rule core_loop_rest)
  have "[0..<n] = 0 # [Suc 0..<n]"
    using False by (simp add: upt_conv_Cons)
  then show ?thesis
    using False
    by (simp add: bnd_def c0 rest cores_tree_def cores_warnings_def)
qed

section \<open>The whole run of \<open>create_mcpat_xml\<close> (custom\_converter.py)\<close>

lemma get_val_set_val_shape:
  assumes "same_shape t mcpat_template" and "valid_path mcpat_template q"
  shows "get_val (set_val q v t) p = (if p = q then Some v else get_val t p)"
  using assms by (simp add: get_val_set_val same_shape_valid_path)

lemma get_val_system_tree:
  assumes sh: "same_shape t mcpat_template"
  shows "get_val (system_tree stats n t) p =
     (if p = [0, 14] then Some [StrOf (PFloat (clock_rate_mhz_of stats))]
      else if p = [0, 28] then Some (int_text (total_cycles_of stats))
      else if p = [0, 26] then Some (int_text (total_cycles_of stats))
      else if p = [0, 0] then Some [StrOf (PInt (int n))]
      else get_val t p)"
  unfolding system_tree_def
  by (simp add: get_val_set_val_shape sh same_shape_set_val cc_facts)

lemma get_val_core0_tree:
  assumes sh: "same_shape t mcpat_template"
  shows "get_val (core0_tree stats tc mhz t) p =
     (if p = [0, 29, 52] then Some (int_text tc)
      else if p = [0, 29, 50] then Some (int_text tc)
      else if p = [0, 29, 48] then Some (int_text (stat0 stats ''fp_insts''))
      else if p = [0, 29, 47] then Some (int_text (stat0 stats ''int_insts''))
      else if p = [0, 29, 46] then Some (int_text (stat0 stats ''committedInsts''))
      else if p = [0, 29, 45] then Some (int_text (stat0 stats ''system.l1dcaches0.WriteReq::total''))
      else if p = [0, 29, 44] then Some (int_text (stat0 stats ''system.l1dcaches0.ReadReq::total''))
      else if p = [0, 29, 43] then Some (int_text (stat0 stats ''branchMispredicts''))
      else if p = [0, 29, 42] then Some (int_text (stat0 stats ''branches''))
      else if p = [0, 29, 41] then Some (int_text (stat0 stats ''fp_insts''))
      else if p = [0, 29, 40] then Some (int_text (stat0 stats ''int_insts''))
      else if p = [0, 29, 39] then Some (int_text (stat0 stats ''committedInsts''))
      else if p = [0, 29, 0] then Some [StrOf (PFloat mhz)]
      else get_val t p)"
  unfolding core0_tree_def
  by (simp add: get_val_set_val_shape sh same_shape_set_val cc_facts)

lemma get_val_l1_tree:
  assumes "same_shape t mcpat_template" and "valid_path mcpat_template q"
  shows "get_val (l1_tree r q t) p =
     (case r of Inr v \<Rightarrow> if p = q then Some v else get_val t p | Inl e \<Rightarrow> get_val t p)"
  using assms by (cases r) (simp_all add: l1_tree_def get_val_set_val_shape)

lemma get_val_l2_tree:
  assumes sh: "same_shape t mcpat_template"
  shows "get_val (l2_tree stats t) p =
     (if p = [0, 30, 6] then Some (int_text (stat0 stats ''system.l2cache.WriteReq::total''))
      else if p = [0, 30, 5] then Some (int_text (stat0 stats ''system.l2cache.ReadReq::total''))
      else get_val t p)"
  unfolding l2_tree_def
  by (simp add: get_val_set_val_shape sh same_shape_set_val cc_facts)

lemma get_val_cores_tree:
  assumes sh: "same_shape t mcpat_template"
  shows "get_val (cores_tree stats config cls n t) p =
     (if n = 0 then get_val t p
      else case l1d_result config cls of
             Inr v \<Rightarrow> if p = [0, 29, 93, 0] then Some v
                      else (case l1i_result config cls of
                              Inr v \<Rightarrow> if p = [0, 29, 91, 0] then Some v
                                       else get_val (core0_tree stats (total_cycles_of stats)
                                                       (clock_rate_mhz_of stats) t) p
                            | Inl e \<Rightarrow> get_val (core0_tree stats (total_cycles_of stats)
                                                    (clock_rate_mhz_of stats) t) p)
           | Inl e \<Rightarrow> (case l1i_result config cls of
                         Inr v \<Rightarrow> if p = [0, 29, 91, 0] then Some v
                                  else get_val (core0_tree stats (total_cycles_of stats)
                                                  (clock_rate_mhz_of stats) t) p
                       | Inl e \<Rightarrow> get_val (core0_tree stats (total_cycles_of stats)
                                               (clock_rate_mhz_of stats) t) p))"
  unfolding cores_tree_def
  by (simp add: get_val_l1_tree same_shape_l1_tree same_shape_core0_tree sh cc_facts
      split: sum.splits)

lemma py_int_of_text_one: "py_int_of_text [Lit ''1''] = Inr 1"
  by (simp add: py_int_of_text_def py_int_of_str_def c_strip_def c_isspace_def is_digit_def
      digit_val_def)

lemma isl_bnd: "isl (fst (m s)) \<Longrightarrow> isl (fst (bnd m f s))"
  by (cases "m s") (auto simp: bnd_def split: sum.splits)

lemma num_l2s_run:
  assumes sh: "same_shape t mcpat_template" and v: "get_val t [0, 3] = Some [Lit ''1'']"
  shows "bnd (read_val (Some [0]) ''param'' ''number_of_L2s'') (\<lambda>t. bnd (lift (py_int_of_text t)) f) (t, out)
         = f 1 (t, out)"
proof -
  have "find_desc (matches ''param'' ''name'' ''number_of_L2s'') t [0] = Some [0, 3]"
    using sh by (simp add: same_shape_find cc_facts)
  then show ?thesis
    using v by (simp add: read_val_def bnd_def find_Some lift_def py_int_of_text_one)
qed

lemma populate_ok_run:
  assumes cls: "cache_line_size_of config = Inr cls"
    and nc: "num_cores_of config = Inr n"
    and ok: "populate_ok stats config cls n"
  shows "populate stats config (mcpat_template, []) =
     (Inr (), (populated_tree stats config cls n, populated_out stats config cls n))"
proof -
  let ?vars = "Some (total_cycles_of stats, clock_rate_mhz_of stats)"
  let ?t1 = "system_tree stats n mcpat_template"
  let ?t2 = "cores_tree stats config cls n ?t1"
  from ok have fin: "finite_float (total_cycles_of stats)"
    and cok: "cores_ok stats config cls n"
    and l2fin: "list_all finite_float (l2_floats stats)"
    by (simp_all add: populate_ok_def)
  have sh1: "same_shape ?t1 mcpat_template"
    by (rule same_shape_system_tree) (rule same_shape_refl)
  have sh2: "same_shape ?t2 mcpat_template"
    using sh1 by (rule same_shape_cores_tree)
  have sys: "system_params stats n (Some [0]) (mcpat_template, []) = (Inr ?vars, (?t1, system_warnings stats))"
    using fin by (simp add: system_params_success[OF same_shape_refl])
  have loop: "for_each [0..<n] (core_params stats config cls ?vars) (?t1, system_warnings stats)
              = (Inr (), (?t2, system_warnings stats @ cores_warnings stats config cls n))"
    using sh1 fin cok by (rule core_loop_ok)
  have v: "get_val ?t2 [0, 3] = Some [Lit ''1'']"
    by (simp add: get_val_cores_tree[OF sh1] get_val_core0_tree[OF sh1]
        get_val_system_tree[OF same_shape_refl] cc_facts split: sum.splits)
  have l2: "l2_params stats 0 (?t2, system_warnings stats @ cores_warnings stats config cls n)
            = (Inr (), (l2_tree stats ?t2,
                        (system_warnings stats @ cores_warnings stats config cls n) @ l2_warnings stats))"
    using sh2 l2fin by (rule l2_params_0_ok)
  have rest: "bnd (read_val (Some [0]) ''param'' ''number_of_L2s'')
                (\<lambda>t. bnd (lift (py_int_of_text t)) (\<lambda>num_l2s. for_each [0..<nat num_l2s] (l2_params stats)))
                (?t2, system_warnings stats @ cores_warnings stats config cls n)
              = (Inr (), (l2_tree stats ?t2,
                        (system_warnings stats @ cores_warnings stats config cls n) @ l2_warnings stats))"
    by (subst num_l2s_run[OF sh2 v]) (simp add: bnd_def l2 ret_def)
  have start: "find root ''component'' ''system'' (mcpat_template, []) = (Inr (Some [0]), (mcpat_template, []))"
    by (simp add: root_def find_Some cc_facts)
  have start': "\<And>f. bnd (find root ''component'' ''system'') f (mcpat_template, []) = f (Some [0]) (mcpat_template, [])"
    by (simp add: bnd_def start)
  have sys': "\<And>f. bnd (system_params stats n (Some [0])) f (mcpat_template, []) = f ?vars (?t1, system_warnings stats)"
    by (simp add: bnd_def sys)
  have loop': "\<And>f. bnd (for_each [0..<n] (core_params stats config cls ?vars)) f (?t1, system_warnings stats)
              = f () (?t2, system_warnings stats @ cores_warnings stats config cls n)"
    by (simp add: bnd_def loop)
  show ?thesis
    unfolding populate_def populated_tree_def populated_out_def
    by (simp only: cls nc bnd_lift_Inr start' sys' loop' rest append_assoc)
qed

lemma core_loop_fail:
  assumes sh: "same_shape t mcpat_template"
    and fin: "finite_float tc"
    and n: "0 < n"
    and nok: "\<not> (list_all finite_float (core0_floats stats)
                \<and> l1_recovers (l1_config_text config ''l1icaches'' 0 cls ''0'')
                \<and> l1_recovers (l1_config_text config ''l1dcaches'' 0 cls ''1''))"
  shows "isl (fst (for_each [0..<n] (core_params stats config cls (Some (tc, mhz))) (t, out)))"
proof -
  let ?t1 = "core0_tree stats tc mhz t"
  let ?ri = "l1_config_text config ''l1icaches'' 0 cls ''0''"
  let ?rd = "l1_config_text config ''l1dcaches'' 0 cls ''1''"
  have sh1: "same_shape ?t1 mcpat_template" using sh by (rule same_shape_core0_tree)
  have sh2: "same_shape (l1_tree ?ri [0, 29, 91, 0] ?t1) mcpat_template"
    using sh1 by (rule same_shape_l1_tree)
  have body: "isl (fst (core_params stats config cls (Some (tc, mhz)) 0 (t, out)))"
  proof (cases "list_all finite_float (core0_floats stats)")
    case False
    then show ?thesis using fin by (intro core_params_0_fail[OF sh]) simp
  next
    case True
    have run: "core_params stats config cls (Some (tc, mhz)) 0 (t, out) =
       bnd (l1_cache_params (Some [0, 29, 91]) ''icache_config'' config ''l1icaches'' 0 cls ''0'' l1i_warning)
         (\<lambda>_. l1_cache_params (Some [0, 29, 93]) ''dcache_config'' config ''l1dcaches'' 0 cls ''1'' l1d_warning)
         (?t1, out @ core0_warnings stats)"
      using True fin by (intro core_params_0_ok[OF sh]) simp
    have i1: "l1_cache_params (Some [0, 29, 91]) ''icache_config'' config ''l1icaches'' 0 cls ''0''
                l1i_warning (?t1, out @ core0_warnings stats)
              = (if l1_recovers ?ri
                 then (Inr (), (l1_tree ?ri [0, 29, 91, 0] ?t1,
                                out @ core0_warnings stats @ l1_warnings ?ri l1i_warning))
                 else (Inl (case ?ri of Inl e \<Rightarrow> e | Inr v \<Rightarrow> KeyError), (?t1, out @ core0_warnings stats)))"
      by (subst l1_cache_params_run[where p="[0, 29, 91, 0]"])
         (simp_all add: same_shape_has_children[OF sh1] same_shape_find[OF sh1] cc_facts)
    have i2: "l1_cache_params (Some [0, 29, 93]) ''dcache_config'' config ''l1dcaches'' 0 cls ''1''
                l1d_warning (l1_tree ?ri [0, 29, 91, 0] ?t1, out @ core0_warnings stats @ l1_warnings ?ri l1i_warning)
              = (if l1_recovers ?rd
                 then (Inr (), (l1_tree ?rd [0, 29, 93, 0] (l1_tree ?ri [0, 29, 91, 0] ?t1),
                                out @ core0_warnings stats @ l1_warnings ?ri l1i_warning
                                @ l1_warnings ?rd l1d_warning))
                 else (Inl (case ?rd of Inl e \<Rightarrow> e | Inr v \<Rightarrow> KeyError),
                       (l1_tree ?ri [0, 29, 91, 0] ?t1, out @ core0_warnings stats @ l1_warnings ?ri l1i_warning)))"
      by (subst l1_cache_params_run[where p="[0, 29, 93, 0]"])
         (simp_all add: same_shape_has_children[OF sh2] same_shape_find[OF sh2] cc_facts)
    show ?thesis
    proof (cases "l1_recovers ?ri")
      case False
      then show ?thesis by (simp add: run bnd_def i1)
    next
      case ri: True
      with True nok have "\<not> l1_recovers ?rd" by simp
      then show ?thesis using ri by (simp add: run bnd_def i1 i2)
    qed
  qed
  have "[0..<n] = 0 # [Suc 0..<n]"
    using n by (simp add: upt_conv_Cons)
  then show ?thesis
    using body by (simp add: isl_bnd)
qed

lemma populate_fail:
  assumes cls: "cache_line_size_of config = Inr cls"
    and nc: "num_cores_of config = Inr n"
    and nok: "\<not> populate_ok stats config cls n"
  shows "isl (fst (populate stats config (mcpat_template, [])))"
proof -
  let ?vars = "Some (total_cycles_of stats, clock_rate_mhz_of stats)"
  let ?t1 = "system_tree stats n mcpat_template"
  let ?t2 = "cores_tree stats config cls n ?t1"
  have sh1: "same_shape ?t1 mcpat_template"
    by (rule same_shape_system_tree) (rule same_shape_refl)
  have sh2: "same_shape ?t2 mcpat_template"
    using sh1 by (rule same_shape_cores_tree)
  have start: "find root ''component'' ''system'' (mcpat_template, []) = (Inr (Some [0]), (mcpat_template, []))"
    by (simp add: root_def find_Some cc_facts)
  have unfold: "populate stats config (mcpat_template, []) =
      bnd (system_params stats n (Some [0])) (\<lambda>vars.
      bnd (for_each [0..<n] (core_params stats config cls vars)) (\<lambda>_.
      bnd (read_val (Some [0]) ''param'' ''number_of_L2s'') (\<lambda>t.
      bnd (lift (py_int_of_text t)) (\<lambda>num_l2s.
      for_each [0..<nat num_l2s] (l2_params stats))))) (mcpat_template, [])"
    unfolding populate_def
    by (simp only: cls nc bnd_lift_Inr) (simp add: bnd_def start del: for_each.simps)
  show ?thesis
  proof (cases "finite_float (total_cycles_of stats)")
    case False
    then show ?thesis
      by (simp only: unfold) (rule isl_bnd, simp add: system_params_success[OF same_shape_refl])
  next
    case fin: True
    have sys: "system_params stats n (Some [0]) (mcpat_template, []) = (Inr ?vars, (?t1, system_warnings stats))"
      using fin by (simp add: system_params_success[OF same_shape_refl])
    show ?thesis
    proof (cases "cores_ok stats config cls n")
      case False
      then have n: "0 < n" and c: "\<not> (list_all finite_float (core0_floats stats)
                \<and> l1_recovers (l1_config_text config ''l1icaches'' 0 cls ''0'')
                \<and> l1_recovers (l1_config_text config ''l1dcaches'' 0 cls ''1''))"
        by (auto simp: cores_ok_def l1i_result_def l1d_result_def split: if_splits)
      have "isl (fst (for_each [0..<n] (core_params stats config cls ?vars) (?t1, system_warnings stats)))"
        using sh1 fin n c by (rule core_loop_fail)
      then have "isl (fst (bnd (for_each [0..<n] (core_params stats config cls ?vars)) (\<lambda>_.
          bnd (read_val (Some [0]) ''param'' ''number_of_L2s'') (\<lambda>t.
          bnd (lift (py_int_of_text t)) (\<lambda>num_l2s.
          for_each [0..<nat num_l2s] (l2_params stats)))) (?t1, system_warnings stats)))"
        by (rule isl_bnd)
      then show ?thesis
        by (simp only: unfold) (simp add: bnd_def sys del: for_each.simps)
    next
      case cok: True
      with fin nok have l2: "\<not> list_all finite_float (l2_floats stats)"
        by (simp add: populate_ok_def)
      have loop: "for_each [0..<n] (core_params stats config cls ?vars) (?t1, system_warnings stats)
              = (Inr (), (?t2, system_warnings stats @ cores_warnings stats config cls n))"
        using sh1 fin cok by (rule core_loop_ok)
      have v: "get_val ?t2 [0, 3] = Some [Lit ''1'']"
        by (simp add: get_val_cores_tree[OF sh1] get_val_core0_tree[OF sh1]
            get_val_system_tree[OF same_shape_refl] cc_facts split: sum.splits)
      have "isl (fst (l2_params stats 0 (?t2, system_warnings stats @ cores_warnings stats config cls n)))"
        using sh2 l2 by (rule l2_params_0_fail)
      then have "isl (fst (bnd (read_val (Some [0]) ''param'' ''number_of_L2s'')
                (\<lambda>t. bnd (lift (py_int_of_text t)) (\<lambda>num_l2s. for_each [0..<nat num_l2s] (l2_params stats)))
                (?t2, system_warnings stats @ cores_warnings stats config cls n)))"
        by (subst num_l2s_run[OF sh2 v]) (simp add: isl_bnd)
      then show ?thesis
        by (simp only: unfold) (simp add: bnd_def sys loop del: for_each.simps)
    qed
  qed
qed

lemma populate_config_fail:
  assumes "isl (cache_line_size_of config) \<or> isl (num_cores_of config)"
  shows "isl (fst (populate stats config s))"
proof (cases "cache_line_size_of config")
  case (Inl e)
  then show ?thesis by (simp add: populate_def bnd_lift_Inl)
next
  case (Inr cls)
  with assms obtain e where "num_cores_of config = Inl e"
    by (cases "num_cores_of config") auto
  with Inr show ?thesis by (simp add: populate_def bnd_lift_Inl bnd_lift_Inr)
qed

section \<open>When \<open>create_mcpat_xml\<close> returns, and what it returns (custom\_converter.py)\<close>

lemma create_mcpat_xml_Inr:
  "create_mcpat_xml stats c0 = (Inr x, out) \<longleftrightarrow>
     (\<exists>config cls n. config_guard c0 = Inr config \<and> cache_line_size_of config = Inr cls
        \<and> num_cores_of config = Inr n \<and> populate_ok stats config cls n
        \<and> x = populated_tree stats config cls n \<and> out = populated_out stats config cls n)"
proof (cases "config_guard c0")
  case (Inl e)
  then show ?thesis by (simp add: create_mcpat_xml_def)
next
  case (Inr config)
  have fail: "isl (fst (populate stats config (mcpat_template, []))) \<Longrightarrow>
              create_mcpat_xml stats c0 \<noteq> (Inr x, out)"
    using Inr
    by (cases "populate stats config (mcpat_template, [])")
       (auto simp: create_mcpat_xml_def split: sum.splits)
  show ?thesis
  proof (cases "isl (cache_line_size_of config) \<or> isl (num_cores_of config)")
    case True
    then have "isl (fst (populate stats config (mcpat_template, [])))"
      by (rule populate_config_fail)
    then have "create_mcpat_xml stats c0 \<noteq> (Inr x, out)" by (rule fail)
    moreover have "\<not> (\<exists>cls n. cache_line_size_of config = Inr cls \<and> num_cores_of config = Inr n
        \<and> populate_ok stats config cls n
        \<and> x = populated_tree stats config cls n \<and> out = populated_out stats config cls n)"
      using True by auto
    ultimately show ?thesis using Inr by simp
  next
    case False
    then obtain cls n where cls: "cache_line_size_of config = Inr cls"
      and nc: "num_cores_of config = Inr n"
      by (cases "cache_line_size_of config"; cases "num_cores_of config") auto
    show ?thesis
    proof (cases "populate_ok stats config cls n")
      case True
      have "populate stats config (mcpat_template, []) =
         (Inr (), (populated_tree stats config cls n, populated_out stats config cls n))"
        using cls nc True by (rule populate_ok_run)
      then have "create_mcpat_xml stats c0 =
         (Inr (populated_tree stats config cls n), populated_out stats config cls n)"
        using Inr by (simp add: create_mcpat_xml_def)
      then show ?thesis using Inr cls nc True by auto
    next
      case False
      have "isl (fst (populate stats config (mcpat_template, [])))"
        using cls nc False by (rule populate_fail)
      then have "create_mcpat_xml stats c0 \<noteq> (Inr x, out)" by (rule fail)
      then show ?thesis using Inr cls nc False by auto
    qed
  qed
qed

lemma create_mcpat_xml_ok:
  assumes "config_guard c0 = Inr config" and "cache_line_size_of config = Inr cls"
    and "num_cores_of config = Inr n" and "populate_ok stats config cls n"
  shows "create_mcpat_xml stats c0 =
     (Inr (populated_tree stats config cls n), populated_out stats config cls n)"
  using assms by (simp add: create_mcpat_xml_Inr)

lemma same_shape_populated_tree:
  "same_shape (populated_tree stats config cls n) mcpat_template"
  unfolding populated_tree_def
  by (intro same_shape_l2_tree same_shape_cores_tree same_shape_system_tree same_shape_refl)

lemma component_path_shape:
  "same_shape x u \<Longrightarrow> component_path x q comps = component_path u q comps"
  by (induction comps arbitrary: q) (simp_all add: same_shape_find split: option.splits)

lemma field_shape:
  assumes "same_shape x u"
  shows "field x comps tg nm =
     (case component_path u [] comps of
        None \<Rightarrow> None
      | Some q \<Rightarrow> (case find_desc (matches tg ''name'' nm) u q of
                     None \<Rightarrow> None
                   | Some p \<Rightarrow> get_val x p))"
  using assms
  by (cases "component_path u [] comps")
     (simp_all add: field_def component_path_shape same_shape_find)

lemma get_val_populated_tree:
  "get_val (populated_tree stats config cls n) p =
     (if p = [0, 30, 6] then Some (int_text (stat0 stats ''system.l2cache.WriteReq::total''))
      else if p = [0, 30, 5] then Some (int_text (stat0 stats ''system.l2cache.ReadReq::total''))
      else get_val (cores_tree stats config cls n (system_tree stats n mcpat_template)) p)"
  unfolding populated_tree_def
  by (rule get_val_l2_tree) (intro same_shape_cores_tree same_shape_system_tree same_shape_refl)

lemma field_populated:
  assumes "component_path mcpat_template [] comps = Some q"
    and "find_desc (matches tg ''name'' nm) mcpat_template q = Some p"
  shows "field (populated_tree stats config cls n) comps tg nm
         = get_val (populated_tree stats config cls n) p"
  using assms by (simp add: field_shape[OF same_shape_populated_tree])

lemma cc_component_paths:
  "component_path mcpat_template [] [''system''] = Some [0]"
  "component_path mcpat_template [] [''core0''] = Some [0, 29]"
  "component_path mcpat_template [] [''core0'', ''icache''] = Some [0, 29, 91]"
  "component_path mcpat_template [] [''core0'', ''dcache''] = Some [0, 29, 93]"
  "component_path mcpat_template [] [''L20''] = Some [0, 30]"
  by (simp_all add: cc_facts)



lemma alias_lookup_ran: "alias_lookup stats names = Some v \<Longrightarrow> v \<in> ran stats"
  by (induction names) (auto simp: ran_def split: if_splits)

lemma resolved_finite:
  assumes "\<forall>v \<in> ran stats. finite_float v"
  shows "finite_float (resolved stats key dflt)"
proof (cases "key \<in> dom stats")
  case True
  then obtain v where "stats key = Some v" by auto
  then show ?thesis using assms by (auto simp: resolved_def ran_def)
next
  case False
  show ?thesis
  proof (cases "alias_lookup stats (stats_map_get key)")
    case None
    then show ?thesis using False by (simp add: resolved_def)
  next
    case (Some v)
    then have "v \<in> ran stats" by (rule alias_lookup_ran)
    then show ?thesis using False Some assms by (simp add: resolved_def)
  qed
qed

lemma populate_ok_finite:
  assumes fin: "\<forall>v \<in> ran stats. finite_float v"
    and l1: "n = 0 \<or> (l1_recovers (l1i_result config cls) \<and> l1_recovers (l1d_result config cls))"
  shows "populate_ok stats config cls n"
  using l1
  by (auto simp: populate_ok_def cores_ok_def total_cycles_of_def stat0_def core0_floats_def
      l2_floats_def resolved_finite[OF fin])

section \<open>The concrete configurations\<close>

lemma config_cores_facts:
  "config_guard (config_cores cores) = Inr (config_cores cores)"
  "cache_line_size_of (config_cores cores) = Inr (PInt 64)"
  "num_cores_of (config_cores cores) = Inr (length cores)"
  "l1i_result (config_cores cores) cls = Inl KeyError"
  "l1d_result (config_cores cores) cls = Inl KeyError"
  by (simp_all add: config_cores_def cache_line_size_of_def num_cores_of_def cores_list_of_def
      sbind_def l1i_result_def l1d_result_def l1_config_text_def)

lemma empty_config_facts:
  "config_guard (PDict []) = Inr (PDict [])"
  "cache_line_size_of (PDict []) = Inr (PInt 64)"
  "num_cores_of (PDict []) = Inr 0"
  by (simp_all add: cache_line_size_of_def num_cores_of_def cores_list_of_def sbind_def)

lemma ran_empty_finite: "\<forall>v \<in> ran (Map.empty :: stat_table). finite_float v"
  by simp

section \<open>The fields of a populated tree (custom\_converter.py)\<close>

lemma populated_fields:
  "field (populated_tree stats config cls n) [''system''] ''param'' ''number_of_cores''
     = Some [StrOf (PInt (int n))]"
  "field (populated_tree stats config cls n) [''system''] ''stat'' ''total_cycles''
     = Some (int_text (total_cycles_of stats))"
  "field (populated_tree stats config cls n) [''system''] ''stat'' ''busy_cycles''
     = Some (int_text (total_cycles_of stats))"
  "field (populated_tree stats config cls n) [''system''] ''stat'' ''idle_cycles'' = Some [Lit ''0'']"
  "field (populated_tree stats config cls n) [''core0''] ''stat'' ''idle_cycles'' = Some [Lit ''0'']"
  by (simp_all add: field_populated cc_component_paths cc_facts
      get_val_populated_tree get_val_cores_tree[OF same_shape_system_tree[OF same_shape_refl]]
      get_val_core0_tree[OF same_shape_system_tree[OF same_shape_refl]]
      get_val_system_tree[OF same_shape_refl] split: sum.splits)

lemma populated_core0_fields:
  assumes "0 < n"
  shows "field (populated_tree stats config cls n) [''core0''] ''param'' ''clock_rate''
     = Some [StrOf (PFloat (clock_rate_mhz_of stats))]"
  "field (populated_tree stats config cls n) [''core0''] ''stat'' ''total_instructions''
     = Some (int_text (stat0 stats ''committedInsts''))"
  "field (populated_tree stats config cls n) [''core0''] ''stat'' ''int_instructions''
     = Some (int_text (stat0 stats ''int_insts''))"
  "field (populated_tree stats config cls n) [''core0''] ''stat'' ''fp_instructions''
     = Some (int_text (stat0 stats ''fp_insts''))"
  "field (populated_tree stats config cls n) [''core0''] ''stat'' ''branch_instructions''
     = Some (int_text (stat0 stats ''branches''))"
  "field (populated_tree stats config cls n) [''core0''] ''stat'' ''branch_mispredictions''
     = Some (int_text (stat0 stats ''branchMispredicts''))"
  "field (populated_tree stats config cls n) [''core0''] ''stat'' ''load_instructions''
     = Some (int_text (stat0 stats ''system.l1dcaches0.ReadReq::total''))"
  "field (populated_tree stats config cls n) [''core0''] ''stat'' ''store_instructions''
     = Some (int_text (stat0 stats ''system.l1dcaches0.WriteReq::total''))"
  "field (populated_tree stats config cls n) [''core0''] ''stat'' ''committed_instructions''
     = Some (int_text (stat0 stats ''committedInsts''))"
  "field (populated_tree stats config cls n) [''core0''] ''stat'' ''committed_int_instructions''
     = Some (int_text (stat0 stats ''int_insts''))"
  "field (populated_tree stats config cls n) [''core0''] ''stat'' ''committed_fp_instructions''
     = Some (int_text (stat0 stats ''fp_insts''))"
  "field (populated_tree stats config cls n) [''core0''] ''stat'' ''total_cycles''
     = Some (int_text (total_cycles_of stats))"
  "field (populated_tree stats config cls n) [''core0''] ''stat'' ''busy_cycles''
     = Some (int_text (total_cycles_of stats))"
  using assms
  by (simp_all add: field_populated cc_component_paths cc_facts
      get_val_populated_tree get_val_cores_tree[OF same_shape_system_tree[OF same_shape_refl]]
      get_val_core0_tree[OF same_shape_system_tree[OF same_shape_refl]]
      get_val_system_tree[OF same_shape_refl] split: sum.splits)

lemma populated_core0_untouched:
  "field (populated_tree stats config cls 0) [''core0''] ''stat'' ''busy_cycles'' = Some [Lit ''100000'']"
  "field (populated_tree stats config cls 0) [''core0''] ''stat'' ''total_cycles'' = Some [Lit ''100000'']"
  by (simp_all add: field_populated cc_component_paths cc_facts
      get_val_populated_tree get_val_cores_tree[OF same_shape_system_tree[OF same_shape_refl]]
      get_val_system_tree[OF same_shape_refl])



lemma total_cycles_of_direct: "stats ''total_cycles'' = Some v \<Longrightarrow> total_cycles_of stats = v"
  by (auto simp: total_cycles_of_def stat0_def resolved_def)

lemma trunc_real_half: "trunc_real (11 / 2) = 5"
  by (simp add: trunc_real_def)


lemma one_core_run:
  assumes fin: "\<forall>v \<in> ran stats. finite_float v"
  shows "create_mcpat_xml stats (config_cores [PDict []]) =
     (Inr (populated_tree stats (config_cores [PDict []]) (PInt 64) 1),
      populated_out stats (config_cores [PDict []]) (PInt 64) 1)"
proof -
  have "populate_ok stats (config_cores [PDict []]) (PInt 64) 1"
    by (rule populate_ok_finite[OF fin]) (simp add: config_cores_facts l1_recovers_def)
  with config_cores_facts(1-3)[of "[PDict []]"] show ?thesis
    by (intro create_mcpat_xml_ok) simp_all
qed

lemma no_cores_run:
  assumes fin: "\<forall>v \<in> ran stats. finite_float v"
  shows "create_mcpat_xml stats (config_cores []) =
     (Inr (populated_tree stats (config_cores []) (PInt 64) 0),
      populated_out stats (config_cores []) (PInt 64) 0)"
proof -
  have "populate_ok stats (config_cores []) (PInt 64) 0"
    by (rule populate_ok_finite[OF fin]) simp
  with config_cores_facts(1-3)[of "[]"] show ?thesis
    by (intro create_mcpat_xml_ok) simp_all
qed

lemma ran_single_finite: "\<forall>v \<in> ran [k \<mapsto> Fin r]. finite_float v"
  by (auto simp: ran_def)

section \<open>Properties of the stat resolvers\<close>

lemma alias_lookup_find:
  "alias_lookup stats names =
     (case List.find (\<lambda>a. a \<in> dom stats) names of Some a \<Rightarrow> stats a | None \<Rightarrow> None)"
  by (induction names) auto

lemma py_float_of_str_3: "py_float_of_str ''3'' = Some (Fin 3)"
  by (simp add: py_float_of_str_def c_strip_def c_isspace_def abs_float_def lower_char_def
      is_exp_char_def mantissa_def digit_part_def is_digit_def digit_val_def)

text \<open>
  Claim C2, as amended. The resolver of custom\_converter.py returns the table's value when
  the canonical key is present; otherwise the value of the first alias that the table
  \<open>stats_map\<close> lists for the key and that is present in the stat table; otherwise it prints
  one warning that names the missing key and the default, and returns the default converted
  to float. On the table of total-cycle aliases: the empty stat table with default 7 gives
  7.0 and the warning; either alias alone is found; the first alias wins over the second;
  the canonical key wins over an alias. The resolver of backup.py has no alias step and
  never prints: it returns the float of the table's string when the key is present and the
  string parses, the float of the default when the key is absent, and the default as it is
  when the conversion raises ValueError or TypeError.
\<close>

theorem resolver_fallback_order:
  "get_stat_value stats key dflt =
     (if key \<in> dom stats then (Inr (the (stats key)), [])
      else case List.find (\<lambda>a. a \<in> dom stats)
                  (case map_of stats_map key of Some names \<Rightarrow> names | None \<Rightarrow> []) of
             Some a \<Rightarrow> (Inr (the (stats a)), [])
           | None \<Rightarrow> (py_float dflt, [stat_warning key dflt]))
   \<and> Lit key \<in> set (stat_warning key dflt)
   \<and> StrOf dflt \<in> set (stat_warning key dflt)
   \<and> get_stat_value Map.empty ''total_cycles'' (PInt 7)
       = (Inr (Fin 7), [stat_warning ''total_cycles'' (PInt 7)])
   \<and> get_stat_value [''system.cpu.numCycles'' \<mapsto> Fin 3] ''total_cycles'' (PInt 7)
       = (Inr (Fin 3), [])
   \<and> get_stat_value [''system.cpu_clk_domain.num_cycles'' \<mapsto> Fin 4] ''total_cycles'' (PInt 7)
       = (Inr (Fin 4), [])
   \<and> get_stat_value [''system.cpu.numCycles'' \<mapsto> Fin 3, ''system.cpu_clk_domain.num_cycles'' \<mapsto> Fin 4]
         ''total_cycles'' (PInt 7)
       = (Inr (Fin 3), [])
   \<and> get_stat_value [''total_cycles'' \<mapsto> Fin 9, ''system.cpu.numCycles'' \<mapsto> Fin 3]
         ''total_cycles'' (PInt 7)
       = (Inr (Fin 9), [])
   \<and> backup_get_stat_value raw key dflt =
       (case raw key of
          Some s \<Rightarrow> (case py_float_of_str s of
                       Some f \<Rightarrow> (Inr (PFloat f), [])
                     | None \<Rightarrow> (Inr dflt, []))
        | None \<Rightarrow> (case py_float dflt of
                     Inr f \<Rightarrow> (Inr (PFloat f), [])
                   | Inl e \<Rightarrow> if e = ValueError \<or> e = TypeError then (Inr dflt, [])
                             else (Inl e, [])))
   \<and> snd (backup_get_stat_value raw key dflt) = []"
proof -
  have general: "get_stat_value stats key dflt =
     (if key \<in> dom stats then (Inr (the (stats key)), [])
      else case List.find (\<lambda>a. a \<in> dom stats)
                  (case map_of stats_map key of Some names \<Rightarrow> names | None \<Rightarrow> []) of
             Some a \<Rightarrow> (Inr (the (stats a)), [])
           | None \<Rightarrow> (py_float dflt, [stat_warning key dflt]))"
  proof (cases "List.find (\<lambda>a. a \<in> dom stats) (stats_map_get key)")
    case None
    then show ?thesis
      by (simp add: get_stat_value_def alias_lookup_find stats_map_get_def)
  next
    case (Some a)
    then have "a \<in> dom stats"
      by (auto simp: find_Some_iff)
    with Some show ?thesis
      by (auto simp: get_stat_value_def alias_lookup_find stats_map_get_def)
  qed
  have names: "Lit key \<in> set (stat_warning key dflt)" "StrOf dflt \<in> set (stat_warning key dflt)"
    by (simp_all add: stat_warning_def)
  have seven: "float_of_int 7 = Inr (Fin 7)"
    using small_defaults(3) by (simp add: float_of_int_def)
  have e1: "get_stat_value Map.empty ''total_cycles'' (PInt 7)
       = (Inr (Fin 7), [stat_warning ''total_cycles'' (PInt 7)])"
    by (simp add: get_stat_value_def stats_map_get_def stats_map_def seven)
  have e2: "get_stat_value [''system.cpu.numCycles'' \<mapsto> Fin 3] ''total_cycles'' (PInt 7)
       = (Inr (Fin 3), [])"
    by (simp add: get_stat_value_def stats_map_get_def stats_map_def)
  have e3: "get_stat_value [''system.cpu_clk_domain.num_cycles'' \<mapsto> Fin 4] ''total_cycles'' (PInt 7)
       = (Inr (Fin 4), [])"
    by (simp add: get_stat_value_def stats_map_get_def stats_map_def)
  have e4: "get_stat_value [''system.cpu.numCycles'' \<mapsto> Fin 3, ''system.cpu_clk_domain.num_cycles'' \<mapsto> Fin 4]
         ''total_cycles'' (PInt 7) = (Inr (Fin 3), [])"
    by (simp add: get_stat_value_def stats_map_get_def stats_map_def)
  have e5: "get_stat_value [''total_cycles'' \<mapsto> Fin 9, ''system.cpu.numCycles'' \<mapsto> Fin 3]
         ''total_cycles'' (PInt 7) = (Inr (Fin 9), [])"
    by (simp add: get_stat_value_def)
  have b1: "backup_get_stat_value raw key dflt =
       (case raw key of
          Some s \<Rightarrow> (case py_float_of_str s of
                       Some f \<Rightarrow> (Inr (PFloat f), [])
                     | None \<Rightarrow> (Inr dflt, []))
        | None \<Rightarrow> (case py_float dflt of
                     Inr f \<Rightarrow> (Inr (PFloat f), [])
                   | Inl e \<Rightarrow> if e = ValueError \<or> e = TypeError then (Inr dflt, [])
                             else (Inl e, [])))"
    by (simp add: backup_get_stat_value_def split: option.splits sum.splits)
  have b2: "snd (backup_get_stat_value raw key dflt) = []"
    by (simp add: backup_get_stat_value_def split: option.splits sum.splits)
  from general names e1 e2 e3 e4 e5 b1 b2 show ?thesis by blast
qed

text \<open>
  Claim C2 as stated fails on the resolver of backup.py, which the claim cites: on the empty
  table with key \<open>total_cycles\<close> and default 7 it returns 7.0 without a warning, and it
  ignores an alias that is present in the table.
\<close>

theorem backup_resolver_silent_counterexample:
  "backup_get_stat_value Map.empty ''total_cycles'' (PInt 7) = (Inr (PFloat (Fin 7)), [])
   \<and> backup_get_stat_value [''system.cpu.numCycles'' \<mapsto> ''3''] ''total_cycles'' (PInt 7)
       = (Inr (PFloat (Fin 7)), [])
   \<and> backup_get_stat_value [''system.cpu.numCycles'' \<mapsto> ''3''] ''system.cpu.numCycles'' (PInt 7)
       = (Inr (PFloat (Fin 3)), [])"
proof -
  have seven: "float_of_int 7 = Inr (Fin 7)"
    using small_defaults(3) by (simp add: float_of_int_def)
  show ?thesis
    by (simp add: backup_get_stat_value_def seven py_float_of_str_3)
qed

section \<open>Runs on the concrete configurations\<close>








lemma backup_not_dict:
  assumes "\<forall>kvs. j \<noteq> PDict kvs"
  shows "backup_create_mcpat_xml stats j = (Inl AttributeError, [])"
proof -
  have "cache_line_size_of j = Inl AttributeError"
    using assms by (cases j) (simp_all add: cache_line_size_of_def sbind_def)
  then have "backup_populate stats j (backup_template, []) = (Inl AttributeError, (backup_template, []))"
    by (simp add: backup_populate_def bnd_lift_Inl)
  then show ?thesis by (simp add: backup_create_mcpat_xml_def)
qed

section \<open>Core count\<close>

text \<open>
  Claim C1. The core count written to \<open>number_of_cores\<close> is the length of the sequence at
  \<open>config.board.processor.cores\<close>, and defaults to 1 when that path is absent. The program
  run on the configuration \<open>{}\<close>, where the path is absent: the default of the lookup is
  the empty list, whose length 0 is written.
\<close>

theorem number_of_cores_path_absent:
  "num_cores_of (PDict []) = Inr 0
   \<and> completes (create_mcpat_xml Map.empty (PDict []))
   \<and> output_field (create_mcpat_xml Map.empty (PDict [])) [''system''] ''param'' ''number_of_cores''
       = Some [StrOf (PInt 0)]"
proof -
  have ok: "populate_ok Map.empty (PDict []) (PInt 64) 0"
    by (rule populate_ok_finite[OF ran_empty_finite]) simp
  have run: "create_mcpat_xml Map.empty (PDict []) =
     (Inr (populated_tree Map.empty (PDict []) (PInt 64) 0), populated_out Map.empty (PDict []) (PInt 64) 0)"
    using empty_config_facts ok by (rule create_mcpat_xml_ok)
  have "field (populated_tree Map.empty (PDict []) (PInt 64) 0) [''system''] ''param'' ''number_of_cores''
        = Some [StrOf (PInt 0)]"
    by (simp add: field_populated[OF cc_component_paths(1) cc_find_system_param_number_of_cores]
        get_val_populated_tree get_val_cores_tree[OF same_shape_system_tree[OF same_shape_refl]]
        get_val_system_tree[OF same_shape_refl])
  then show ?thesis
    by (simp add: run completes_def output_field_def empty_config_facts)
qed


section \<open>Busy cycles\<close>

text \<open>
  Claim C10, as amended. In the fuller-template variant, whenever the run completes, the
  system-level \<open>busy_cycles\<close> and \<open>total_cycles\<close> are the resolved total-cycles value
  truncated to an int, and both \<open>idle_cycles\<close> stay at the template's 0. The core-level
  \<open>busy_cycles\<close> and \<open>total_cycles\<close> are that int as well when the core count is at least
  1; with a core count of 0 the loop over the cores does not run and both keep the
  template's 100000. So \<open>busy_cycles\<close> equals \<open>total_cycles\<close> in every output, at the
  system level and at the core level.
\<close>

theorem busy_cycles_is_total_cycles:
  assumes run: "create_mcpat_xml stats c0 = (Inr x, out)"
    and cfg: "config_guard c0 = Inr config"
    and nc: "num_cores_of config = Inr n"
  shows "finite_float (total_cycles_of stats)
    \<and> field x [''system''] ''stat'' ''busy_cycles'' = Some [StrOf (PInt (int_of (total_cycles_of stats)))]
    \<and> field x [''system''] ''stat'' ''total_cycles'' = Some [StrOf (PInt (int_of (total_cycles_of stats)))]
    \<and> field x [''system''] ''stat'' ''idle_cycles'' = Some [Lit ''0'']
    \<and> field x [''core0''] ''stat'' ''idle_cycles'' = Some [Lit ''0'']
    \<and> field x [''core0''] ''stat'' ''busy_cycles'' =
          (if 0 < n then Some [StrOf (PInt (int_of (total_cycles_of stats)))]
           else Some [Lit ''100000''])
    \<and> field x [''core0''] ''stat'' ''total_cycles'' =
          (if 0 < n then Some [StrOf (PInt (int_of (total_cycles_of stats)))]
           else Some [Lit ''100000''])
    \<and> field x [''system''] ''stat'' ''busy_cycles'' = field x [''system''] ''stat'' ''total_cycles''
    \<and> field x [''core0''] ''stat'' ''busy_cycles'' = field x [''core0''] ''stat'' ''total_cycles''"
proof -
  from run obtain config' cls n' where c: "config_guard c0 = Inr config'"
    and "num_cores_of config' = Inr n'" and ok: "populate_ok stats config' cls n'"
    and x: "x = populated_tree stats config' cls n'"
    by (auto simp: create_mcpat_xml_Inr)
  with cfg nc have x': "x = populated_tree stats config cls n" and ok': "populate_ok stats config cls n"
    by simp_all
  have fin: "finite_float (total_cycles_of stats)"
    using ok' by (simp add: populate_ok_def)
  show ?thesis
  proof (cases "0 < n")
    case True
    then show ?thesis
      using fin by (simp add: x' populated_fields populated_core0_fields int_text_def)
  next
    case False
    then have "n = 0" by simp
    then show ?thesis
      using fin by (simp add: x' populated_fields populated_core0_untouched int_text_def)
  qed
qed

theorem busy_cycles_is_total_cycles_witness:
  "output_field (create_mcpat_xml [''total_cycles'' \<mapsto> Fin (11 / 2)] (config_cores [PDict []]))
     [''core0''] ''stat'' ''busy_cycles'' = Some [StrOf (PInt 5)]
   \<and> output_field (create_mcpat_xml [''total_cycles'' \<mapsto> Fin (11 / 2)] (config_cores [PDict []]))
     [''system''] ''stat'' ''busy_cycles'' = Some [StrOf (PInt 5)]
   \<and> output_field (create_mcpat_xml [''total_cycles'' \<mapsto> Fin (11 / 2)] (config_cores [PDict []]))
     [''core0''] ''stat'' ''total_cycles'' = Some [StrOf (PInt 5)]
   \<and> output_field (create_mcpat_xml [''total_cycles'' \<mapsto> Fin (11 / 2)] (config_cores [PDict []]))
     [''system''] ''stat'' ''idle_cycles'' = Some [Lit ''0'']"
proof -
  let ?stats = "[''total_cycles'' \<mapsto> Fin (11 / 2)]"
  have run: "create_mcpat_xml ?stats (config_cores [PDict []]) =
     (Inr (populated_tree ?stats (config_cores [PDict []]) (PInt 64) 1),
      populated_out ?stats (config_cores [PDict []]) (PInt 64) 1)"
    by (rule one_core_run) (rule ran_single_finite)
  have tc: "total_cycles_of ?stats = Fin (11 / 2)"
    by (rule total_cycles_of_direct) simp
  have n: "num_cores_of (config_cores [PDict []]) = Inr 1"
    by (simp add: config_cores_facts)
  show ?thesis
    using busy_cycles_is_total_cycles[OF run config_cores_facts(1) n]
    by (simp add: output_field_def run tc int_of_def trunc_real_half)
qed

text \<open>
  Claim C10 as stated fails on the configuration \<open>{"board": {"processor": {"cores": []}}}\<close>
  with \<open>total_cycles = 5.5\<close>: the system-level \<open>busy_cycles\<close> is 5, the core-level one is
  still 100000.
\<close>

theorem busy_cycles_core_level_counterexample:
  "completes (create_mcpat_xml [''total_cycles'' \<mapsto> Fin (11 / 2)] (config_cores []))
   \<and> output_field (create_mcpat_xml [''total_cycles'' \<mapsto> Fin (11 / 2)] (config_cores []))
        [''system''] ''stat'' ''busy_cycles'' = Some [StrOf (PInt 5)]
   \<and> output_field (create_mcpat_xml [''total_cycles'' \<mapsto> Fin (11 / 2)] (config_cores []))
        [''core0''] ''stat'' ''busy_cycles'' = Some [Lit ''100000'']"
proof -
  let ?stats = "[''total_cycles'' \<mapsto> Fin (11 / 2)]"
  have run: "create_mcpat_xml ?stats (config_cores []) =
     (Inr (populated_tree ?stats (config_cores []) (PInt 64) 0),
      populated_out ?stats (config_cores []) (PInt 64) 0)"
    by (rule no_cores_run) (rule ran_single_finite)
  have tc: "total_cycles_of ?stats = Fin (11 / 2)"
    by (rule total_cycles_of_direct) simp
  show ?thesis
    by (simp add: output_field_def completes_def run populated_fields populated_core0_untouched
        int_text_def tc int_of_def trunc_real_half)
qed

section \<open>Per-core fields\<close>




section \<open>The top-level value of the configuration\<close>

text \<open>
  Claim C6, as amended. In custom\_converter.py, when the top-level JSON value is a sequence,
  \<open>parse_config\<close> returns its first element, and fails (ValueError,
  \<open>config.json is an empty list.\<close>) when the sequence is empty; when the top-level value is
  neither a mapping nor a sequence, \<open>parse_config\<close> passes it on and \<open>create_mcpat_xml\<close>
  raises TypeError before it prints anything. In backup.py, \<open>parse_config\<close> returns every
  value as it is, a sequence included, and \<open>create_mcpat_xml\<close> fails with AttributeError on
  every value that is not a mapping.
\<close>

theorem config_top_level_value:
  "parse_config (PList (first # others)) = Inr first
   \<and> parse_config (PList []) = Inl ValueError
   \<and> ((\<forall>l. j \<noteq> PList l) \<and> (\<forall>kvs. j \<noteq> PDict kvs) \<longrightarrow>
        parse_config j = Inr j \<and> create_mcpat_xml stats j = (Inl TypeError, []))
   \<and> backup_parse_config j = Inr j
   \<and> ((\<forall>kvs. j \<noteq> PDict kvs) \<longrightarrow> backup_create_mcpat_xml raw j = (Inl AttributeError, []))"
proof -
  have custom: "(\<forall>l. j \<noteq> PList l) \<and> (\<forall>kvs. j \<noteq> PDict kvs) \<longrightarrow>
        parse_config j = Inr j \<and> create_mcpat_xml stats j = (Inl TypeError, [])"
    by (cases j) (simp_all add: create_mcpat_xml_def)
  have backup: "(\<forall>kvs. j \<noteq> PDict kvs) \<longrightarrow> backup_create_mcpat_xml raw j = (Inl AttributeError, [])"
    by (simp add: backup_not_dict)
  show ?thesis
    using custom backup by (simp add: backup_parse_config_def)
qed

theorem config_top_level_value_witness:
  "parse_config (PList [PDict [], PInt 3]) = Inr (PDict [])
   \<and> parse_config (PList []) = Inl ValueError
   \<and> parse_config (PInt 5) = Inr (PInt 5)
   \<and> create_mcpat_xml Map.empty (PInt 5) = (Inl TypeError, [])
   \<and> backup_parse_config (PInt 5) = Inr (PInt 5)
   \<and> backup_create_mcpat_xml Map.empty (PInt 5) = (Inl AttributeError, [])"
  using config_top_level_value[of "PDict []" "[PInt 3]" "PInt 5" Map.empty Map.empty]
  by simp

text \<open>
  Claim C6 as stated fails on backup.py, which the claim cites: for the top-level sequence
  \<open>[{}]\<close> its \<open>parse_config\<close> returns the sequence, not the first element, and the
  conversion then fails with AttributeError; for the top-level value 5 the conversion fails
  with AttributeError, not with a type error.
\<close>

theorem backup_config_sequence_counterexample:
  "backup_parse_config (PList [PDict []]) = Inr (PList [PDict []])
   \<and> backup_create_mcpat_xml Map.empty (PList [PDict []]) = (Inl AttributeError, [])
   \<and> backup_create_mcpat_xml Map.empty (PInt 5) = (Inl AttributeError, [])"
  by (simp add: backup_parse_config_def backup_not_dict)

section \<open>The exit status of the drivers\<close>




end
